theory Spec2Isabelle
  imports Complex_Main "HOL-Library.AList"
begin

chapter \<open>The model\<close>

section \<open>Health registry (src/utils/monitoring/HealthChecker.js)\<close>

text \<open>
  The status enumeration of the source, the per-component health record and the
  registry object. JavaScript objects and \<open>Map\<close>s keep insertion order and replace
  the value of an existing key in place; an association list with
  \<open>AList.update\<close> does the same. Dates are natural numbers (milliseconds).

  \<open>status.components\<close> is a plain object: \<open>components\<close> are its own properties,
  which \<open>Object.entries\<close> lists. An assignment to its property \<open>__proto__\<close> does not
  create an own property, it replaces the object's prototype, and reading \<open>__proto__\<close>
  answers the prototype: \<open>components_proto\<close> (\<open>None\<close> while it is still
  \<open>Object.prototype\<close>).
\<close>

datatype HealthStatus = UNKNOWN | HEALTHY | UNHEALTHY | DEGRADED

record component =
  c_status :: HealthStatus
  c_critical :: bool
  c_lastCheck :: "nat option"
  c_lastSuccess :: "nat option"
  c_lastFailure :: "nat option"
  c_details :: "string option"
  c_error :: "string option"

text \<open>
  A check function is foreign code. What the registry sees of one call is how long the
  promise takes to settle and whether it resolves (with details) or rejects (with a
  message); a synchronous throw inside the \<open>try\<close> is a rejection too.
\<close>

datatype settled = Resolve "string option" | Reject string

record check =
  check_fn :: "nat \<Rightarrow> nat \<times> settled"
  timeout :: nat
  critical :: bool

datatype health_event =
  CheckSuccess string
  | CheckFailure string string
  | CheckComplete HealthStatus

record HealthChecker =
  checks :: "(string \<times> check) list"
  checkTimer :: bool
  status :: HealthStatus
  lastCheck :: "nat option"
  components :: "(string \<times> component) list"
  components_proto :: "component option"
  emitted :: "health_event list"

text \<open>
  \<open>registerCheck(name, checkFn, options)\<close>: \<open>options.timeout || 5000\<close> and
  \<open>options.critical !== false\<close>; the component record is seeded as unknown and
  assigned to \<open>status.components[name]\<close>.
\<close>

definition set_component :: "HealthChecker \<Rightarrow> string \<Rightarrow> component \<Rightarrow> HealthChecker" where
  "set_component hc name c =
     (if name = ''__proto__'' then hc\<lparr>components_proto := Some c\<rparr>
      else hc\<lparr>components := AList.update name c (components hc)\<rparr>)"

definition registerCheck ::
  "HealthChecker \<Rightarrow> string \<Rightarrow> (nat \<Rightarrow> nat \<times> settled) \<Rightarrow> nat option \<Rightarrow> bool option
     \<Rightarrow> HealthChecker" where
  "registerCheck hc name checkFn opt_timeout opt_critical =
     (let chk = \<lparr>check_fn = checkFn,
                  timeout = (case opt_timeout of None \<Rightarrow> 5000
                             | Some t \<Rightarrow> if t = 0 then 5000 else t),
                  critical = (opt_critical \<noteq> Some False)\<rparr>
      in set_component (hc\<lparr>checks := AList.update name chk (checks hc)\<rparr>) name
           \<lparr>c_status = UNKNOWN, c_critical = critical chk, c_lastCheck = None,
            c_lastSuccess = None, c_lastFailure = None, c_details = None, c_error = None\<rparr>)"

text \<open>
  The race of the check against its timer in \<open>runCheck\<close>. The check is started before
  the timer is set, so a check that settles no later than the timer fires wins the race
  with its own outcome; otherwise the race ends in the rejection
  \<open>Health check timeout for <name>\<close>.
\<close>

definition race :: "string \<Rightarrow> check \<Rightarrow> nat \<Rightarrow> settled" where
  "race name chk now =
     (case check_fn chk now of
        (duration, outcome) \<Rightarrow>
          if duration \<le> timeout chk then outcome
          else Reject (''Health check timeout for '' @ name))"

text \<open>
  \<open>status.components[name]\<close> as \<open>runCheck\<close> reads it: the own property, or for
  \<open>__proto__\<close> the prototype (\<open>Object.prototype\<close>, with none of the fields, while no
  component was assigned to it). For any other name without an own property the model
  answers \<open>undefined\<close>; \<open>checkAll\<close> asks for registered names only, which have one.
\<close>

definition component_at :: "HealthChecker \<Rightarrow> string \<Rightarrow> component option" where
  "component_at hc name =
     (if name = ''__proto__'' then
        (case components_proto hc of
           Some c \<Rightarrow> Some c
         | None \<Rightarrow> Some \<lparr>c_status = UNKNOWN, c_critical = False, c_lastCheck = None,
                          c_lastSuccess = None, c_lastFailure = None, c_details = None,
                          c_error = None\<rparr>)
      else map_of (components hc) name)"

text \<open>
  \<open>runCheck(name, check)\<close>. Reading a component that does not exist throws before
  the \<open>try\<close>; \<open>checkAll\<close> catches that rejection and the state is as before. The
  writes go to the component object that was read. The \<open>onUnhealthy\<close> callback is
  foreign code and is taken to leave the registry alone.
\<close>

definition runCheck :: "HealthChecker \<Rightarrow> nat \<Rightarrow> string \<Rightarrow> check \<Rightarrow> bool \<times> HealthChecker" where
  "runCheck hc now name chk =
     (case component_at hc name of
        None \<Rightarrow> (False, hc)
      | Some component \<Rightarrow>
          (let c1 = component\<lparr>c_lastCheck := Some now\<rparr> in
           case race name chk now of
             Resolve result \<Rightarrow>
               (True,
                (set_component hc name
                   (c1\<lparr>c_status := HEALTHY, c_details := result, c_error := None,
                       c_lastSuccess := Some now\<rparr>))
                  \<lparr>emitted := emitted hc @ [CheckSuccess name]\<rparr>)
           | Reject msg \<Rightarrow>
               (False,
                (set_component hc name
                   (c1\<lparr>c_status := UNHEALTHY, c_error := Some msg,
                       c_lastFailure := Some now\<rparr>))
                  \<lparr>emitted := emitted hc @ [CheckFailure name msg]\<rparr>)))"

text \<open>
  \<open>_updateOverallStatus()\<close>: the loop over \<open>Object.entries(components)\<close> carries
  the two flags \<open>hasUnhealthyCritical\<close> and \<open>hasUnhealthyNonCritical\<close>.
\<close>

fun scanComponents :: "(string \<times> component) list \<Rightarrow> bool \<times> bool \<Rightarrow> bool \<times> bool" where
  "scanComponents [] flags = flags"
| "scanComponents ((name, component) # rest) (hasUnhealthyCritical, hasUnhealthyNonCritical) =
     (if c_status component = UNHEALTHY then
        (if c_critical component
         then scanComponents rest (True, hasUnhealthyNonCritical)
         else scanComponents rest (hasUnhealthyCritical, True))
      else scanComponents rest (hasUnhealthyCritical, hasUnhealthyNonCritical))"

definition updateOverallStatus :: "HealthChecker \<Rightarrow> HealthChecker" where
  "updateOverallStatus hc =
     (case scanComponents (components hc) (False, False) of
        (hasUnhealthyCritical, hasUnhealthyNonCritical) \<Rightarrow>
          if hasUnhealthyCritical then hc\<lparr>status := UNHEALTHY\<rparr>
          else if hasUnhealthyNonCritical then hc\<lparr>status := DEGRADED\<rparr>
          else hc\<lparr>status := HEALTHY\<rparr>)"

text \<open>
  \<open>checkAll()\<close>: every registered check runs (each writes only its own component, so
  the order in which the promises settle does not matter), then the overall status is
  recomputed and \<open>health:check:complete\<close> is emitted.
\<close>

fun runChecks :: "HealthChecker \<Rightarrow> nat \<Rightarrow> (string \<times> check) list \<Rightarrow> HealthChecker" where
  "runChecks hc now [] = hc"
| "runChecks hc now ((name, chk) # rest) = runChecks (snd (runCheck hc now name chk)) now rest"

definition checkAll :: "HealthChecker \<Rightarrow> nat \<Rightarrow> HealthChecker" where
  "checkAll hc now =
     (let hc1 = hc\<lparr>lastCheck := Some now\<rparr>;
          hc2 = runChecks hc1 now (checks hc1);
          hc3 = updateOverallStatus hc2
      in hc3\<lparr>emitted := emitted hc3 @ [CheckComplete (status hc3)]\<rparr>)"

text \<open>
  \<open>startChecking()\<close> runs \<open>checkAll\<close> at once and sets the interval timer, unless
  the timer is already set; the timer's later calls of \<open>checkAll\<close> are calls of
  \<open>checkAll\<close>. The constructor starts with nothing registered and the status unknown,
  and calls \<open>startChecking\<close> unless \<open>options.enabled\<close> is \<open>false\<close>. That first
  \<open>checkAll\<close> has no check to wait for and completes on the next tick of the event
  loop; the registry is given here as it is from then on.
\<close>

definition startChecking :: "HealthChecker \<Rightarrow> nat \<Rightarrow> HealthChecker" where
  "startChecking hc now = (if checkTimer hc then hc else (checkAll hc now)\<lparr>checkTimer := True\<rparr>)"

definition new_HealthChecker :: "bool option \<Rightarrow> nat \<Rightarrow> HealthChecker" where
  "new_HealthChecker opt_enabled now =
     (let hc = \<lparr>checks = [], checkTimer = False, status = UNKNOWN, lastCheck = None,
                 components = [], components_proto = None, emitted = []\<rparr>
      in if opt_enabled \<noteq> Some False then startChecking hc now else hc)"




text \<open>
  For the checks themselves: whether the race of a check with its timer ends in a
  rejection, the pair (critical, status) of a component, and the component record
  \<open>runCheck\<close> writes for an outcome.
\<close>

definition failed :: "string \<Rightarrow> check \<Rightarrow> nat \<Rightarrow> bool" where
  "failed name chk now = (case race name chk now of Resolve _ \<Rightarrow> False | Reject _ \<Rightarrow> True)"







definition scenario_proto :: HealthChecker where
  "scenario_proto =
     registerCheck (new_HealthChecker (Some False) 0) ''__proto__'' (\<lambda>_. (1, Reject ''down''))
       None None"


section \<open>Dead-letter queue (src/utils/queue/DeadLetterQueue.js, Queue.js)\<close>

text \<open>
  A message as the queue layer reads it: \<open>id\<close>, \<open>type\<close>, \<open>data\<close> and the optional
  \<open>attempts\<close>. A missing property is \<open>None\<close>.
\<close>

record message =
  msg_id :: "string option"
  msg_type :: "string option"
  msg_data :: string
  msg_attempts :: "nat option"

text \<open>
  Job options are a JavaScript object; the spread \<open>{...a, ...b}\<close> is \<open>a ++ b\<close> and
  a later property wins.
\<close>

datatype optval = ONum nat | OBool bool | OStr string | OBackoff string nat

type_synonym job_options = "string \<rightharpoonup> optval"

record dlq_context =
  failedAt :: "nat option"
  originalQueue :: "string option"
  ctx_attempts :: "nat option"

record dlq_meta =
  addedAt :: "nat option"
  retryCount :: "nat option"
  lastRetryAt :: "nat option"
  nextRetryAt :: "nat option"

record deadLetterMessage =
  originalMessage :: "message option"
  dl_error :: "string \<times> string"
  dl_context :: "dlq_context option"
  dl_meta :: "dlq_meta option"

datatype dlq_error =
  NotFound string
  | InvalidStructure
  | StoreError string

text \<open>
  The dead-letter queue object with the part of the queue store it talks to:
  \<open>dlq_jobs\<close> are the jobs of its own queue by job id (\<open>getJob\<close> reads a job from the
  store, \<open>job.update\<close> writes its data back); \<open>added\<close> lists, in order, the calls of
  \<open>add\<close> that target queues accepted (queue name, data, options after \<open>Queue.add\<close> has
  merged its defaults). The store is foreign: \<open>get_down\<close> tells whether \<open>getJob\<close>
  rejects, \<open>queue_down\<close> for which queue an \<open>add\<close> rejects and \<open>update_down\<close>
  whether \<open>job.update\<close> rejects.
\<close>

record DeadLetterQueue =
  dlq_queueName :: string
  dlq_retryInterval :: nat
  dlq_maxRetries :: nat
  dlq_ttl :: nat
  dlq_jobs :: "string \<rightharpoonup> deadLetterMessage"
  added :: "(string \<times> message \<times> job_options) list"
  get_down :: bool
  queue_down :: "string \<Rightarrow> bool"
  update_down :: bool

definition new_DeadLetterQueue :: DeadLetterQueue where
  "new_DeadLetterQueue =
     \<lparr>dlq_queueName = ''dead-letter-queue'', dlq_retryInterval = 1000 * 60 * 30,
      dlq_maxRetries = 3, dlq_ttl = 1000 * 60 * 60 * 24 * 7, dlq_jobs = Map.empty,
      added = [], get_down = False, queue_down = (\<lambda>_. False), update_down = False\<rparr>"

text \<open>\<open>Queue.add(data, jobOptions)\<close>: the defaults, overridden by the caller's options.\<close>

definition Queue_add_options :: "job_options \<Rightarrow> job_options" where
  "Queue_add_options jobOptions =
     [''attempts'' \<mapsto> ONum 3, ''backoff'' \<mapsto> OBackoff ''exponential'' 1000,
      ''removeOnComplete'' \<mapsto> OBool True] ++ jobOptions"

text \<open>\<open>_calculateNextRetryTime(retryCount)\<close>: now + retryInterval * 2^retryCount.\<close>

definition calculateNextRetryTime :: "DeadLetterQueue \<Rightarrow> nat \<Rightarrow> nat \<Rightarrow> nat" where
  "calculateNextRetryTime q now count = now + dlq_retryInterval q * 2 ^ count"

text \<open>A string property is falsy when it is missing or empty.\<close>

definition falsy :: "string option \<Rightarrow> bool" where
  "falsy s = (s = None \<or> s = Some [])"

definition id_text :: "string option \<Rightarrow> string" where
  "id_text s = (case s of None \<Rightarrow> ''undefined'' | Some t \<Rightarrow> t)"

text \<open>
  \<open>addFailedMessage(message, error, context)\<close>: the record is enqueued under
  \<open>dlq:<id>\<close>; the store keeps an existing job with that id as it is.
\<close>

definition addFailedMessage ::
  "DeadLetterQueue \<Rightarrow> nat \<Rightarrow> message \<Rightarrow> string \<times> string \<Rightarrow> string option \<Rightarrow> nat option
     \<Rightarrow> (dlq_error + unit) \<times> DeadLetterQueue" where
  "addFailedMessage q now msg err ctx_queueName ctx_att =
     (let deadLetter =
            \<lparr>originalMessage = Some msg, dl_error = err,
             dl_context = Some \<lparr>failedAt = Some now, originalQueue = ctx_queueName,
                             ctx_attempts = Some (case ctx_att of None \<Rightarrow> 0 | Some a \<Rightarrow> a)\<rparr>,
             dl_meta = Some \<lparr>addedAt = Some now, retryCount = Some 0, lastRetryAt = None,
                          nextRetryAt = Some (calculateNextRetryTime q now 0)\<rparr>\<rparr>;
          jobId = ''dlq:'' @ id_text (msg_id msg)
      in if queue_down q (dlq_queueName q) then (Inl (StoreError (dlq_queueName q)), q)
         else if jobId \<in> dom (dlq_jobs q) then (Inr (), q)
         else (Inr (), q\<lparr>dlq_jobs := (dlq_jobs q)(jobId \<mapsto> deadLetter)\<rparr>))"

text \<open>
  The defensive defaults of \<open>retryMessage\<close>: a missing \<open>meta\<close> becomes
  \<open>{retryCount: 0}\<close> and an undefined \<open>retryCount\<close> becomes 0; a missing
  \<open>context\<close> becomes \<open>{originalQueue: 'default-queue'}\<close> and a falsy
  \<open>originalQueue\<close> becomes \<open>'default-queue'\<close>.
\<close>

definition default_meta :: "deadLetterMessage \<Rightarrow> dlq_meta" where
  "default_meta d =
     (case dl_meta d of
        None \<Rightarrow> \<lparr>addedAt = None, retryCount = Some 0, lastRetryAt = None, nextRetryAt = None\<rparr>
      | Some m \<Rightarrow> if retryCount m = None then m\<lparr>retryCount := Some 0\<rparr> else m)"

definition default_context :: "deadLetterMessage \<Rightarrow> dlq_context" where
  "default_context d =
     (case dl_context d of
        None \<Rightarrow> \<lparr>failedAt = None, originalQueue = Some ''default-queue'', ctx_attempts = None\<rparr>
      | Some c \<Rightarrow> if falsy (originalQueue c) then c\<lparr>originalQueue := Some ''default-queue''\<rparr>
                  else c)"

text \<open>The count \<open>retryMessage\<close> compares with the cap, and the queue a retry goes to.\<close>

definition retries_of :: "deadLetterMessage \<Rightarrow> nat" where
  "retries_of d = (case retryCount (default_meta d) of None \<Rightarrow> 0 | Some c \<Rightarrow> c)"

definition target_queue :: "deadLetterMessage \<Rightarrow> string" where
  "target_queue d = id_text (originalQueue (default_context d))"

text \<open>The record \<open>job.update\<close> writes back after a retry at time \<open>now\<close>.\<close>

definition retried :: "DeadLetterQueue \<Rightarrow> nat \<Rightarrow> deadLetterMessage \<Rightarrow> deadLetterMessage" where
  "retried q now d =
     d\<lparr>dl_context := Some (default_context d),
       dl_meta := Some ((default_meta d)
                         \<lparr>retryCount := Some (retries_of d + 1),
                          lastRetryAt := Some now,
                          nextRetryAt := Some (calculateNextRetryTime q now (retries_of d + 1))\<rparr>)\<rparr>"

text \<open>
  \<open>retryMessage(messageId, options)\<close>. Every \<open>throw\<close> is a branch, in the order of
  the source: \<open>getJob\<close> rejecting, job not found, missing \<open>originalMessage\<close>, the
  cap, then \<open>targetQueue.add\<close> and after it \<open>job.update\<close>. The job object read by
  \<open>getJob\<close> is a copy of the stored one, so what is changed in it before a rejection
  (or before \<open>return false\<close>) is not in the store; a job that was added before
  \<open>job.update\<close> rejects stays added.
\<close>

definition retryMessage ::
  "DeadLetterQueue \<Rightarrow> nat \<Rightarrow> string \<Rightarrow> job_options \<Rightarrow> (dlq_error + bool) \<times> DeadLetterQueue" where
  "retryMessage q now messageId options =
     (if get_down q then (Inl (StoreError (dlq_queueName q)), q) else
      case dlq_jobs q (''dlq:'' @ messageId) of
        None \<Rightarrow> (Inl (NotFound messageId), q)
      | Some deadLetter \<Rightarrow>
          (case originalMessage deadLetter of
             None \<Rightarrow> (Inl InvalidStructure, q)
           | Some original \<Rightarrow>
               if retries_of deadLetter \<ge> dlq_maxRetries q then (Inr False, q)
               else if queue_down q (target_queue deadLetter)
               then (Inl (StoreError (target_queue deadLetter)), q)
               else
                 (let q1 = q\<lparr>added := added q @
                                [(target_queue deadLetter, original,
                                  Queue_add_options (options(''attempts'' \<mapsto> ONum 1)))]\<rparr>
                  in if update_down q then (Inl (StoreError (dlq_queueName q)), q1)
                     else (Inr True,
                           q1\<lparr>dlq_jobs := (dlq_jobs q1)(''dlq:'' @ messageId \<mapsto>
                                 retried q now deadLetter)\<rparr>))))"

text \<open>\<open>retryMessage\<close> called \<open>k\<close> times in a row; the results in order.\<close>

fun retryTimes ::
  "nat \<Rightarrow> DeadLetterQueue \<Rightarrow> nat \<Rightarrow> string \<Rightarrow> (dlq_error + bool) list \<times> DeadLetterQueue" where
  "retryTimes 0 q now messageId = ([], q)"
| "retryTimes (Suc k) q now messageId =
     (case retryMessage q now messageId Map.empty of
        (r, q1) \<Rightarrow> (case retryTimes k q1 now messageId of (rs, q2) \<Rightarrow> (r # rs, q2)))"

text \<open>The job a retry of record \<open>d\<close> puts on the target queue.\<close>

definition retry_job ::
  "deadLetterMessage \<Rightarrow> message \<Rightarrow> job_options \<Rightarrow> string \<times> message \<times> job_options" where
  "retry_job d m options =
     (target_queue d, m, Queue_add_options (options(''attempts'' \<mapsto> ONum 1)))"

text \<open>
  Scenario S5 of the specification: the failed message \<open>m1\<close> with error \<open>boom\<close> from
  queue \<open>orders\<close> is parked in a new dead-letter queue.
\<close>

definition message_m1 :: message where
  "message_m1 = \<lparr>msg_id = Some ''m1'', msg_type = Some ''order'', msg_data = ''payload'',
                  msg_attempts = None\<rparr>"

definition scenario_S5 :: DeadLetterQueue where
  "scenario_S5 =
     snd (addFailedMessage new_DeadLetterQueue 0 message_m1 (''boom'', ''stack'')
            (Some ''orders'') None)"

definition record_m1 :: deadLetterMessage where
  "record_m1 =
     \<lparr>originalMessage = Some message_m1, dl_error = (''boom'', ''stack''),
      dl_context = Some \<lparr>failedAt = Some 0, originalQueue = Some ''orders'',
                          ctx_attempts = Some 0\<rparr>,
      dl_meta = Some \<lparr>addedAt = Some 0, retryCount = Some 0, lastRetryAt = None,
                       nextRetryAt = Some 1800000\<rparr>\<rparr>"

text \<open>
  The queue of S5 with a store that rejects every \<open>job.update\<close>, and the projection of
  an accepted \<open>add\<close> to its queue name, its message and its \<open>attempts\<close> option.
\<close>

definition scenario_S5_update_rejected :: DeadLetterQueue where
  "scenario_S5_update_rejected = scenario_S5\<lparr>update_down := True\<rparr>"

definition add_call :: "string \<times> message \<times> job_options \<Rightarrow> string \<times> message \<times> optval option" where
  "add_call j = (fst j, fst (snd j), snd (snd j) ''attempts'')"


section \<open>Message processor (src/utils/queue/MessageProcessor.js)\<close>

text \<open>
  A handler is foreign code. What the processor sees of one call \<open>handler(data)\<close> raced
  against the timeout timer is that the promise resolves with a result, rejects (or the
  handler throws) with an error, or is still pending when the timer fires. A handler may
  answer differently from call to call; it is given the number of handler calls the
  processor has made before this one.
\<close>

datatype outcome = Resolves string | Rejects string | Hangs

type_synonym handler = "nat \<Rightarrow> string \<Rightarrow> outcome"

datatype mp_error =
  InvalidFormat
  | AlreadyProcessing string
  | NoHandler string
  | HandlerError string
  | ProcessingTimeout string

text \<open>
  What the processor does to the outside, in order: the events it emits
  (\<open>processed\<close>, \<open>retry\<close> with the attempt count and the next delay, \<open>failed\<close>) and
  its calls of \<open>delay(ms)\<close>.
\<close>

datatype mp_event =
  Processed string string
  | Retry string mp_error nat real
  | Failed string mp_error nat
  | Delay real

text \<open>
  The processor: its options, the in-flight map \<open>processingMessages\<close> (the attempt
  count of each message being processed), the handler registry, the trace and the number
  of handler calls made.
\<close>

record MessageProcessor =
  mp_maxRetries :: nat
  mp_retryDelay :: nat
  mp_timeout :: nat
  processingMessages :: "string \<rightharpoonup> nat"
  handlers :: "string \<rightharpoonup> handler"
  mp_trace :: "mp_event list"
  invocations :: nat

definition new_MessageProcessor :: "nat option \<Rightarrow> nat option \<Rightarrow> nat option \<Rightarrow> MessageProcessor" where
  "new_MessageProcessor opt_maxRetries opt_retryDelay opt_timeout =
     \<lparr>mp_maxRetries = (case opt_maxRetries of None \<Rightarrow> 3 | Some n \<Rightarrow> n),
      mp_retryDelay = (case opt_retryDelay of None \<Rightarrow> 1000 | Some n \<Rightarrow> n),
      mp_timeout = (case opt_timeout of None \<Rightarrow> 30000 | Some n \<Rightarrow> n),
      processingMessages = Map.empty, handlers = Map.empty, mp_trace = [],
      invocations = 0\<rparr>"

definition registerHandler :: "MessageProcessor \<Rightarrow> string \<Rightarrow> handler \<Rightarrow> MessageProcessor" where
  "registerHandler p type h = p\<lparr>handlers := (handlers p)(type \<mapsto> h)\<rparr>"

text \<open>
  \<open>calculateRetryDelay(attempts)\<close>:
  \<open>Math.min(retryDelay * Math.pow(2, attempts - 1), 30000)\<close>. The exponent is an
  integer and is -1 for \<open>attempts = 0\<close>, where the result is half of \<open>retryDelay\<close>;
  the delay is a real number.
\<close>

definition calculateRetryDelay :: "MessageProcessor \<Rightarrow> nat \<Rightarrow> real" where
  "calculateRetryDelay p attempts =
     min (real (mp_retryDelay p) * 2 powi (int attempts - 1)) 30000"

text \<open>
  \<open>Promise.race([handler(data), timeoutPromise])\<close>: the result, or the error caught:
  the handler's own, or \<open>Processing timeout for message <id>\<close> when the timer fires
  first.
\<close>

definition raceHandler :: "string \<Rightarrow> outcome \<Rightarrow> mp_error + string" where
  "raceHandler mid out =
     (case out of
        Resolves result \<Rightarrow> Inr result
      | Rejects e \<Rightarrow> Inl (HandlerError e)
      | Hangs \<Rightarrow> Inl (ProcessingTimeout mid))"

text \<open>
  \<open>process(message)\<close>. The three precondition checks throw before anything is
  recorded. Then the message is put in flight with \<open>attempts + 1\<close>, the handler is
  called, and on failure the recorded attempt count decides between a retry (event,
  delay, recursive call with that count as \<open>attempts\<close>) and giving up. The
  bookkeeping of the timeout timers has no part in the result and is left out.
\<close>

function process :: "MessageProcessor \<Rightarrow> message \<Rightarrow> (mp_error + string) \<times> MessageProcessor" where
  "process p message =
     (let attempts = (case msg_attempts message of None \<Rightarrow> 0 | Some a \<Rightarrow> a) in
      if falsy (msg_id message) \<or> falsy (msg_type message) then (Inl InvalidFormat, p)
      else if id_text (msg_id message) \<in> dom (processingMessages p)
      then (Inl (AlreadyProcessing (id_text (msg_id message))), p)
      else
        (case handlers p (id_text (msg_type message)) of
           None \<Rightarrow> (Inl (NoHandler (id_text (msg_type message))), p)
         | Some h \<Rightarrow>
             (let p1 = p\<lparr>processingMessages :=
                          (processingMessages p)(id_text (msg_id message) \<mapsto> attempts + 1),
                        invocations := invocations p + 1\<rparr>
              in case raceHandler (id_text (msg_id message))
                        (h (invocations p) (msg_data message)) of
                   Inr result \<Rightarrow>
                     (Inr result,
                      p1\<lparr>processingMessages :=
                            (processingMessages p1)(id_text (msg_id message) := None),
                          mp_trace := mp_trace p1 @
                            [Processed (id_text (msg_id message)) result]\<rparr>)
                 | Inl error \<Rightarrow>
                     (let info = (case processingMessages p1 (id_text (msg_id message)) of
                                    None \<Rightarrow> 1 | Some a \<Rightarrow> a);
                          p2 = p1\<lparr>processingMessages :=
                                     (processingMessages p1)(id_text (msg_id message) := None)\<rparr>
                      in if info < mp_maxRetries p then
                           process
                             (p2\<lparr>mp_trace := mp_trace p2 @
                                   [Retry (id_text (msg_id message)) error info
                                      (calculateRetryDelay p info),
                                    Delay (calculateRetryDelay p info)]\<rparr>)
                             (message\<lparr>msg_attempts := Some info\<rparr>)
                         else
                           (Inl error,
                            p2\<lparr>mp_trace := mp_trace p2 @
                                  [Failed (id_text (msg_id message)) error info]\<rparr>)))))"
  by pat_completeness auto
termination
  by (relation "measure (\<lambda>(p, m). mp_maxRetries p -
                  (case msg_attempts m of None \<Rightarrow> 0 | Some a \<Rightarrow> a))")
     (auto split: option.splits)

declare process.simps [simp del]

text \<open>
  The attempt count \<open>process\<close> records for a message (\<open>attempts + 1\<close>, with
  \<open>attempts\<close> defaulting to 0), and the three preconditions under which a message
  reaches its handler \<open>h\<close>.
\<close>

definition attempt_no :: "message \<Rightarrow> nat" where
  "attempt_no m = (case msg_attempts m of None \<Rightarrow> 0 | Some a \<Rightarrow> a) + 1"

definition accepted :: "MessageProcessor \<Rightarrow> message \<Rightarrow> handler \<Rightarrow> bool" where
  "accepted p m h =
     (\<not> falsy (msg_id m) \<and> \<not> falsy (msg_type m)
      \<and> id_text (msg_id m) \<notin> dom (processingMessages p)
      \<and> handlers p (id_text (msg_type m)) = Some h)"

text \<open>
  Scenario S6 of the specification: \<open>maxRetries = 3\<close>, \<open>retryDelay = 100\<close>, a handler for
  type \<open>t\<close> that rejects twice and then resolves with \<open>ok\<close>, and the message
  \<open>{id: "j1", type: "t", data: {}}\<close>.
\<close>

definition scenario_S6 :: MessageProcessor where
  "scenario_S6 =
     registerHandler (new_MessageProcessor (Some 3) (Some 100) None) ''t''
       (\<lambda>n data. if n < 2 then Rejects ''not yet'' else Resolves ''ok'')"

definition message_j1 :: message where
  "message_j1 = \<lparr>msg_id = Some ''j1'', msg_type = Some ''t'', msg_data = ''{}'',
                  msg_attempts = None\<rparr>"

text \<open>
  The processor of S6 with a handler whose first call is still pending when the timeout
  timer fires and whose second call resolves with \<open>ok\<close>; and a processor with
  \<open>maxRetries = 1\<close> whose handler never settles.
\<close>

definition scenario_timeout :: MessageProcessor where
  "scenario_timeout =
     registerHandler (new_MessageProcessor (Some 3) (Some 100) None) ''t''
       (\<lambda>n data. if n = 0 then Hangs else Resolves ''ok'')"

definition scenario_give_up :: MessageProcessor where
  "scenario_give_up =
     registerHandler (new_MessageProcessor (Some 1) (Some 100) None) ''t'' (\<lambda>n data. Hangs)"

text \<open>Messages that fail a precondition: one without \<open>id\<close>, one of an unregistered type.\<close>

definition message_no_id :: message where
  "message_no_id = \<lparr>msg_id = None, msg_type = Some ''t'', msg_data = ''{}'',
                     msg_attempts = None\<rparr>"

definition message_unknown_type :: message where
  "message_unknown_type = \<lparr>msg_id = Some ''j1'', msg_type = Some ''other'', msg_data = ''{}'',
                            msg_attempts = None\<rparr>"


section \<open>Alert engine (src/utils/monitoring/AlertManager.js)\<close>

datatype AlertSeverity = INFO | WARNING | ERROR | CRITICAL

datatype AlertStatus = ACTIVE | RESOLVED | ACKNOWLEDGED | SILENCED

record notification =
  n_notifier :: string
  n_time :: nat
  n_success :: bool
  n_error :: "string option"

record alert =
  a_id :: string
  a_name :: string
  a_message :: string
  a_severity :: AlertSeverity
  a_labels :: "string list"
  a_data :: "string option"
  a_status :: AlertStatus
  a_timestamp :: nat
  a_lastUpdated :: nat
  a_notifications :: "notification list"
  a_silencedBy :: "string option"

record silence =
  s_id :: string
  s_name :: string
  s_labels :: "string list"
  s_createdAt :: nat
  s_expireAt :: nat
  s_silencedBy :: string
  s_message :: "string option"

text \<open>
  A notifier is foreign code: \<open>notify(alert)\<close> returns a value, of which only the
  truthiness is recorded, or throws.
\<close>

datatype notify_result = Returned bool | Threw string

record notifier =
  nf_name :: string
  nf_notify :: "alert \<Rightarrow> notify_result"
  nf_filter :: "alert \<Rightarrow> bool"

datatype alert_event =
  AlertEvent string
  | SilenceEvent string

text \<open>
  The manager. \<open>alerts\<close> is the map of active alerts by name; \<open>silencedAlerts\<close> is the
  map of silences, which the source keys by the silence's own \<open>id\<close>, so it is kept as
  the list of its values in insertion order. \<open>delivered\<close> lists every call of a
  notifier's \<open>notify\<close> (notifier name, alert id) in order.
\<close>

record AlertManager =
  alerts :: "(string \<times> alert) list"
  alertHistory :: "alert list"
  silencedAlerts :: "silence list"
  notifiers :: "notifier list"
  maxHistorySize :: nat
  delivered :: "(string \<times> string) list"
  am_emitted :: "alert_event list"

text \<open>Decimal text of a number, for \<open>`${name}_${Date.now()}`\<close>.\<close>

fun nat_text :: "nat \<Rightarrow> string" where
  "nat_text n =
     (if n < 10 then [char_of (48 + n)]
      else nat_text (n div 10) @ [char_of (48 + n mod 10)])"

declare nat_text.simps [simp del]

text \<open>The constructor: the built-in \<open>logger\<close> notifier resolves with no value.\<close>

definition new_AlertManager :: "nat option \<Rightarrow> AlertManager" where
  "new_AlertManager opt_maxHistorySize =
     \<lparr>alerts = [], alertHistory = [], silencedAlerts = [],
      notifiers = [\<lparr>nf_name = ''logger'', nf_notify = (\<lambda>_. Returned False),
                    nf_filter = (\<lambda>_. True)\<rparr>],
      maxHistorySize = (case opt_maxHistorySize of None \<Rightarrow> 1000
                        | Some n \<Rightarrow> if n = 0 then 1000 else n),
      delivered = [], am_emitted = []\<rparr>"

definition addNotifier :: "AlertManager \<Rightarrow> notifier \<Rightarrow> AlertManager" where
  "addNotifier am nf = am\<lparr>notifiers := notifiers am @ [nf]\<rparr>"

text \<open>
  \<open>_labelMatch(alertLabels, matchLabels)\<close>: an empty match list matches everything,
  otherwise every match label must be among the alert's labels.
\<close>

definition labelMatch :: "string list \<Rightarrow> string list \<Rightarrow> bool" where
  "labelMatch alertLabels matchLabels =
     (matchLabels = [] \<or> list_all (\<lambda>label. label \<in> set alertLabels) matchLabels)"

text \<open>
  \<open>_isSilenced(name, labels)\<close>: the loop over the silences. A silence of another name,
  or with labels that do not match, is skipped; an expired one is deleted from the map
  (\<open>delete(silence.id)\<close> removes the entry being visited) and skipped; the first one
  left answers true. The result is the answer and the silences that remain.
\<close>

fun scanSilences :: "nat \<Rightarrow> string \<Rightarrow> string list \<Rightarrow> silence list \<Rightarrow> bool \<times> silence list" where
  "scanSilences now name labels [] = (False, [])"
| "scanSilences now name labels (s # rest) =
     (if s_name s \<noteq> name \<and> s_name s \<noteq> ''*''
      then (case scanSilences now name labels rest of (b, kept) \<Rightarrow> (b, s # kept))
      else if s_labels s \<noteq> [] \<and> \<not> labelMatch labels (s_labels s)
      then (case scanSilences now name labels rest of (b, kept) \<Rightarrow> (b, s # kept))
      else if s_expireAt s > 0 \<and> s_expireAt s < now
      then scanSilences now name labels rest
      else (True, s # rest))"

definition isSilenced :: "AlertManager \<Rightarrow> nat \<Rightarrow> string \<Rightarrow> string list \<Rightarrow> bool \<times> AlertManager" where
  "isSilenced am now name labels =
     (case scanSilences now name labels (silencedAlerts am) of
        (b, kept) \<Rightarrow> (b, am\<lparr>silencedAlerts := kept\<rparr>))"

text \<open>
  \<open>_addToHistory(alert)\<close>: a copy goes to the front, and the list is cut to
  \<open>maxHistorySize\<close>. \<open>_updateAlertHistory(alert)\<close>: the first entry with the alert's
  id is replaced, and if there is none the alert is added.
\<close>

definition addToHistory :: "AlertManager \<Rightarrow> alert \<Rightarrow> AlertManager" where
  "addToHistory am a =
     (let h = a # alertHistory am
      in am\<lparr>alertHistory := (if length h > maxHistorySize am
                               then take (maxHistorySize am) h else h)\<rparr>)"

fun replaceFirst :: "alert \<Rightarrow> alert list \<Rightarrow> alert list option" where
  "replaceFirst a [] = None"
| "replaceFirst a (x # xs) =
     (if a_id x = a_id a then Some (a # xs)
      else map_option (\<lambda>ys. x # ys) (replaceFirst a xs))"

definition updateAlertHistory :: "AlertManager \<Rightarrow> alert \<Rightarrow> AlertManager" where
  "updateAlertHistory am a =
     (case replaceFirst a (alertHistory am) of
        Some h \<Rightarrow> am\<lparr>alertHistory := h\<rparr>
      | None \<Rightarrow> addToHistory am a)"

text \<open>
  \<open>_sendNotifications(alert)\<close>: every notifier whose filter passes is called, and the
  attempt is pushed to the alert's delivery log; a notifier that throws does not stop
  the others. The result is the alert with its log and the calls made.
\<close>

fun notifyAll :: "nat \<Rightarrow> notifier list \<Rightarrow> alert \<Rightarrow> (string \<times> string) list
    \<Rightarrow> alert \<times> (string \<times> string) list" where
  "notifyAll now [] a calls = (a, calls)"
| "notifyAll now (nf # rest) a calls =
     (if \<not> nf_filter nf a then notifyAll now rest a calls
      else
        (case nf_notify nf a of
           Returned result \<Rightarrow>
             notifyAll now rest
               (a\<lparr>a_notifications := a_notifications a @
                    [\<lparr>n_notifier = nf_name nf, n_time = now, n_success = result,
                      n_error = None\<rparr>]\<rparr>)
               (calls @ [(nf_name nf, a_id a)])
         | Threw msg \<Rightarrow>
             notifyAll now rest
               (a\<lparr>a_notifications := a_notifications a @
                    [\<lparr>n_notifier = nf_name nf, n_time = now, n_success = False,
                      n_error = Some msg\<rparr>]\<rparr>)
               (calls @ [(nf_name nf, a_id a)])))"

definition sendNotifications :: "AlertManager \<Rightarrow> nat \<Rightarrow> alert \<Rightarrow> alert \<times> AlertManager" where
  "sendNotifications am now a =
     (case notifyAll now (notifiers am) a (delivered am) of
        (a', calls) \<Rightarrow>
          (a', updateAlertHistory
                 (am\<lparr>delivered := calls,
                     alerts := map (\<lambda>(k, x). if a_id x = a_id a' then (k, a') else (k, x))
                                 (alerts am)\<rparr>) a'))"

text \<open>
  \<open>alert(name, message, severity, labels, data)\<close>: \<open>null\<close> when silenced; otherwise the
  alert is created, stored under its name, added to the history and sent to the
  notifiers. The alert object in the map is the one the notifications are pushed to.
\<close>

definition raise_alert ::
  "AlertManager \<Rightarrow> nat \<Rightarrow> string \<Rightarrow> string \<Rightarrow> AlertSeverity \<Rightarrow> string list \<Rightarrow> string option
     \<Rightarrow> alert option \<times> AlertManager" where
  "raise_alert am now name message severity labels data =
     (case isSilenced am now name labels of
        (True, am1) \<Rightarrow> (None, am1)
      | (False, am1) \<Rightarrow>
          (let a = \<lparr>a_id = name @ ''_'' @ nat_text now, a_name = name, a_message = message,
                    a_severity = severity, a_labels = labels, a_data = data,
                    a_status = ACTIVE, a_timestamp = now, a_lastUpdated = now,
                    a_notifications = [], a_silencedBy = None\<rparr>;
               am2 = am1\<lparr>alerts := AList.update name a (alerts am1)\<rparr>;
               am3 = addToHistory am2 a
           in case sendNotifications am3 now a of
                (a', am4) \<Rightarrow>
                  (Some a', am4\<lparr>am_emitted := am_emitted am4 @ [AlertEvent name]\<rparr>)))"

text \<open>
  \<open>silence(name, duration, labels, silencedBy, message)\<close>: the silence is stored under
  its id (a silence with that id is replaced in place); an active alert of that name
  whose labels match is marked silenced. The timer that removes a finite silence when
  it ends is outside the model; \<open>_isSilenced\<close> does not rely on it.
\<close>

fun putSilence :: "silence \<Rightarrow> silence list \<Rightarrow> silence list" where
  "putSilence s [] = [s]"
| "putSilence s (x # xs) = (if s_id x = s_id s then s # xs else x # putSilence s xs)"

definition silence_alert ::
  "AlertManager \<Rightarrow> nat \<Rightarrow> string \<Rightarrow> nat \<Rightarrow> string list \<Rightarrow> string \<Rightarrow> string option
     \<Rightarrow> string \<times> AlertManager" where
  "silence_alert am now name duration labels silencedBy message =
     (let silenceId = name @ ''_'' @ nat_text now;
          s = \<lparr>s_id = silenceId, s_name = name, s_labels = labels, s_createdAt = now,
               s_expireAt = (if duration > 0 then now + duration else 0),
               s_silencedBy = silencedBy, s_message = message\<rparr>;
          am1 = am\<lparr>silencedAlerts := putSilence s (silencedAlerts am)\<rparr>
      in case map_of (alerts am1) name of
           Some a \<Rightarrow>
             if labelMatch (a_labels a) labels then
               (let a' = a\<lparr>a_status := SILENCED, a_silencedBy := Some silenceId,
                           a_lastUpdated := now\<rparr>
                in (silenceId,
                    (updateAlertHistory (am1\<lparr>alerts := AList.update name a' (alerts am1)\<rparr>) a')
                      \<lparr>am_emitted := am_emitted am1 @ [SilenceEvent silenceId]\<rparr>))
             else (silenceId, am1\<lparr>am_emitted := am_emitted am1 @ [SilenceEvent silenceId]\<rparr>)
         | None \<Rightarrow> (silenceId, am1\<lparr>am_emitted := am_emitted am1 @ [SilenceEvent silenceId]\<rparr>))"

text \<open>
  Scenario S3 of the specification: \<open>disk_full\<close> is silenced with no labels for 3600 s
  at time 1000, on a manager with the built-in notifier.
\<close>

definition scenario_S3 :: AlertManager where
  "scenario_S3 =
     snd (silence_alert (new_AlertManager None) 1000 ''disk_full'' 3600000 [] ''ops'' None)"

definition silence_S3 :: silence where
  "silence_S3 =
     \<lparr>s_id = ''disk_full_'' @ nat_text 1000, s_name = ''disk_full'', s_labels = [],
      s_createdAt = 1000, s_expireAt = 3601000, s_silencedBy = ''ops'', s_message = None\<rparr>"


section \<open>Metric registry (src/utils/monitoring/MetricsCollector.js)\<close>

text \<open>
  What a caller hands over as a metric value: a number, \<open>NaN\<close> (which is a number to
  JavaScript), or \<open>undefined\<close> (an argument or a property that is missing). Finite
  doubles are taken as real numbers; their rounding and the infinities are outside the
  model. \<open>a + b\<close> is the sum of two numbers and \<open>NaN\<close> otherwise; \<open>a < b\<close> and
  \<open>a <= b\<close> are false unless both sides are numbers; \<open>NaN\<close> and \<open>undefined\<close> are
  falsy, as is 0.
\<close>

datatype jsvalue = Number real | NaN | Undefined

fun js_add :: "jsvalue \<Rightarrow> jsvalue \<Rightarrow> jsvalue" where
  "js_add (Number a) (Number b) = Number (a + b)"
| "js_add _ _ = NaN"

fun js_less :: "jsvalue \<Rightarrow> jsvalue \<Rightarrow> bool" where
  "js_less (Number a) (Number b) = (a < b)"
| "js_less _ _ = False"

fun js_le :: "jsvalue \<Rightarrow> jsvalue \<Rightarrow> bool" where
  "js_le (Number a) (Number b) = (a \<le> b)"
| "js_le _ _ = False"

fun js_truthy :: "jsvalue \<Rightarrow> bool" where
  "js_truthy (Number a) = (a \<noteq> 0)"
| "js_truthy NaN = False"
| "js_truthy Undefined = False"

text \<open>
  A value cell is such a value for a counter or a gauge and a
  \<open>{sum, count, buckets}\<close> object for a histogram. The \<open>buckets\<close> object is keyed by
  the bucket boundary.
\<close>

datatype MetricType = COUNTER | GAUGE | HISTOGRAM

record histogram =
  h_sum :: jsvalue
  h_count :: nat
  h_buckets :: "nat \<rightharpoonup> nat"

datatype cell = Num jsvalue | Hist histogram

text \<open>A labels argument is an object literal: label name and value, in order.\<close>

type_synonym labels = "(string \<times> string) list"

record metric =
  m_name :: string
  m_type :: MetricType
  m_help :: string
  labelNames :: "string list"
  created :: nat
  m_value :: cell
  labelValues :: "(string \<times> cell) list"

text \<open>
  The collector: the metric map in registration order, the name prefix, the warnings
  logged and the names of the \<open>metric:update\<close> events emitted.
\<close>

record MetricsCollector =
  metrics :: "(string \<times> metric) list"
  prefix :: string
  mc_warnings :: "string list"
  mc_updates :: "string list"

text \<open>The constructor with \<open>enabled: false\<close>: no metric registered.\<close>

definition new_MetricsCollector :: "string option \<Rightarrow> MetricsCollector" where
  "new_MetricsCollector opt_prefix =
     \<lparr>metrics = [],
      prefix = (case opt_prefix of None \<Rightarrow> ''app_'' | Some p \<Rightarrow> if p = [] then ''app_'' else p),
      mc_warnings = [], mc_updates = []\<rparr>"

definition empty_histogram :: histogram where
  "empty_histogram = \<lparr>h_sum = Number 0, h_count = 0, h_buckets = Map.empty\<rparr>"

text \<open>
  \<open>registerMetric(name, type, help, labelNames)\<close>: a registered name is left as it is;
  otherwise the metric is created with a zero cell and no label tuples.
\<close>

definition registerMetric ::
  "MetricsCollector \<Rightarrow> nat \<Rightarrow> string \<Rightarrow> MetricType \<Rightarrow> string \<Rightarrow> string list \<Rightarrow> MetricsCollector" where
  "registerMetric mc now name type help names =
     (case map_of (metrics mc) name of
        Some existing \<Rightarrow> mc
      | None \<Rightarrow>
          mc\<lparr>metrics := AList.update name
                 \<lparr>m_name = prefix mc @ name, m_type = type, m_help = help, labelNames = names,
                  created = now,
                  m_value = (if type = HISTOGRAM then Hist empty_histogram
                             else Num (Number 0)),
                  labelValues = []\<rparr> (metrics mc)\<rparr>)"

text \<open>\<open>Array.join\<close> and \<open>String.split\<close> with a one-character separator.\<close>

fun join :: "string \<Rightarrow> string list \<Rightarrow> string" where
  "join sep [] = []"
| "join sep [x] = x"
| "join sep (x # y # rest) = x @ sep @ join sep (y # rest)"

fun split_on :: "char \<Rightarrow> string \<Rightarrow> string list" where
  "split_on c [] = [[]]"
| "split_on c (x # xs) =
     (if x = c then [] # split_on c xs
      else (case split_on c xs of
              [] \<Rightarrow> [[x]]
            | w # ws \<Rightarrow> (x # w) # ws))"

text \<open>
  \<open>_getLabelKey(labels, labelNames)\<close>: \<open>name:value\<close> for every registered label name,
  joined by commas; a label that is not given counts as the empty string.
\<close>

definition getLabelKey :: "labels \<Rightarrow> string list \<Rightarrow> string" where
  "getLabelKey labels names =
     join '','' (map (\<lambda>name. name @ '':'' @ (case map_of labels name of
                                               None \<Rightarrow> [] | Some v \<Rightarrow> v)) names)"

text \<open>
  The order in which \<open>Object.entries\<close> lists the properties of an object that was
  filled by assignments: first the keys that are array indices (the decimal text of an
  integer below 2^32 - 1, without a sign or a leading zero) in increasing order, then the
  other keys in the order in which they were first assigned.
\<close>

definition digit :: "char \<Rightarrow> bool" where
  "digit c = (c \<in> set ''0123456789'')"

definition index_value :: "string \<Rightarrow> nat" where
  "index_value k = foldl (\<lambda>n c. 10 * n + (of_char c - 48)) 0 k"

definition is_index :: "string \<Rightarrow> bool" where
  "is_index k =
     (k \<noteq> [] \<and> list_all digit k \<and> (k = ''0'' \<or> hd k \<noteq> CHR ''0'')
      \<and> index_value k < 4294967295)"

definition own_keys_order :: "(string \<times> 'a) list \<Rightarrow> (string \<times> 'a) list" where
  "own_keys_order kvs =
     sort_key (\<lambda>kv. index_value (fst kv)) (filter (\<lambda>kv. is_index (fst kv)) kvs)
     @ filter (\<lambda>kv. \<not> is_index (fst kv)) kvs"

text \<open>
  \<open>_parseLabelKey(labelKey)\<close>: the key is split at commas and each part at colons; the
  first two pieces of a part are the name and the value, and a part with an empty name
  is dropped. The result is the object, its properties in the order of
  \<open>Object.entries\<close>.
\<close>

fun parseParts :: "string list \<Rightarrow> (string \<times> string option) list \<Rightarrow> (string \<times> string option) list" where
  "parseParts [] result = result"
| "parseParts (part # rest) result =
     (case split_on (CHR '':'') part of
        [] \<Rightarrow> parseParts rest result
      | [name] \<Rightarrow>
          parseParts rest (if name = [] then result else AList.update name None result)
      | name # v # _ \<Rightarrow>
          parseParts rest (if name = [] then result else AList.update name (Some v) result))"

definition parseLabelKey :: "string \<Rightarrow> (string \<times> string option) list" where
  "parseLabelKey labelKey = own_keys_order (parseParts (split_on (CHR '','') labelKey) [])"

text \<open>The fixed bucket ladder, and one observation written into a histogram cell.\<close>

definition buckets :: "nat list" where
  "buckets = [1, 5, 10, 25, 50, 100, 250, 500, 1000, 2500, 5000, 10000]"

fun bumpBuckets :: "jsvalue \<Rightarrow> nat list \<Rightarrow> (nat \<rightharpoonup> nat) \<Rightarrow> (nat \<rightharpoonup> nat)" where
  "bumpBuckets v [] b = b"
| "bumpBuckets v (bucket # rest) b =
     bumpBuckets v rest
       (if js_le v (Number (real bucket))
        then b(bucket \<mapsto> (case b bucket of None \<Rightarrow> 0 | Some c \<Rightarrow> c) + 1)
        else b)"

definition observe :: "jsvalue \<Rightarrow> histogram \<Rightarrow> histogram" where
  "observe v histData =
     \<lparr>h_sum = js_add (h_sum histData) v, h_count = h_count histData + 1,
      h_buckets = bumpBuckets v buckets (h_buckets histData)\<rparr>"

text \<open>
  What the update code reads from a cell: \<open>labelValues.get(labelKey) || 0\<close> for the
  tuple of a labelled counter (\<open>or_zero\<close>: a missing tuple and a falsy value read as
  0), the value itself for a counter without labels (\<open>num_of\<close>), and the histogram
  object (a new one when the tuple has none) for a histogram. Counters only ever hold
  values and histograms only histogram objects.
\<close>

definition num_of :: "cell option \<Rightarrow> jsvalue" where
  "num_of c = (case c of Some (Num v) \<Rightarrow> v | _ \<Rightarrow> Number 0)"

definition or_zero :: "cell option \<Rightarrow> jsvalue" where
  "or_zero c = (case c of Some (Num v) \<Rightarrow> if js_truthy v then v else Number 0 | _ \<Rightarrow> Number 0)"

definition hist_of :: "cell option \<Rightarrow> histogram" where
  "hist_of c = (case c of Some (Hist h) \<Rightarrow> h | _ \<Rightarrow> empty_histogram)"

text \<open>
  \<open>setMetric(name, value, labels)\<close>. An unknown name is warned about. A metric with
  label names warns about missing labels and goes on with the key built from them. A
  value for a counter that passes the test \<open>value < 0\<close> is warned about and the call
  returns before anything is written or emitted; every other value is added.
\<close>

definition setMetric :: "MetricsCollector \<Rightarrow> string \<Rightarrow> jsvalue \<Rightarrow> labels \<Rightarrow> MetricsCollector" where
  "setMetric mc name v labels =
     (case map_of (metrics mc) name of
        None \<Rightarrow> mc\<lparr>mc_warnings := mc_warnings mc @ [''Attempted to set unknown metric: '' @ name]\<rparr>
      | Some metric \<Rightarrow>
          if labelNames metric \<noteq> [] then
            (let missing = filter (\<lambda>label. map_of labels label = None) (labelNames metric);
                 mc1 = (if missing \<noteq> []
                        then mc\<lparr>mc_warnings := mc_warnings mc @
                                  [''Missing labels for metric '' @ name @ '': '' @
                                   join '', '' missing]\<rparr>
                        else mc);
                 labelKey = getLabelKey labels (labelNames metric)
             in case m_type metric of
                  COUNTER \<Rightarrow>
                    if js_less v (Number 0)
                    then mc1\<lparr>mc_warnings := mc_warnings mc1 @
                               [''Cannot decrease counter metric '' @ name]\<rparr>
                    else mc1\<lparr>metrics := AList.update name
                               (metric\<lparr>labelValues := AList.update labelKey
                                  (Num (js_add (or_zero (map_of (labelValues metric) labelKey)) v))
                                  (labelValues metric)\<rparr>) (metrics mc1),
                             mc_updates := mc_updates mc1 @ [m_name metric]\<rparr>
                | GAUGE \<Rightarrow>
                    mc1\<lparr>metrics := AList.update name
                          (metric\<lparr>labelValues := AList.update labelKey (Num v)
                             (labelValues metric)\<rparr>) (metrics mc1),
                        mc_updates := mc_updates mc1 @ [m_name metric]\<rparr>
                | HISTOGRAM \<Rightarrow>
                    mc1\<lparr>metrics := AList.update name
                          (metric\<lparr>labelValues := AList.update labelKey
                             (Hist (observe v (hist_of (map_of (labelValues metric) labelKey))))
                             (labelValues metric)\<rparr>) (metrics mc1),
                        mc_updates := mc_updates mc1 @ [m_name metric]\<rparr>)
          else
            (case m_type metric of
               COUNTER \<Rightarrow>
                 if js_less v (Number 0)
                 then mc\<lparr>mc_warnings := mc_warnings mc @
                           [''Cannot decrease counter metric '' @ name]\<rparr>
                 else mc\<lparr>metrics := AList.update name
                            (metric\<lparr>m_value := Num (js_add (num_of (Some (m_value metric))) v)\<rparr>)
                            (metrics mc),
                          mc_updates := mc_updates mc @ [m_name metric]\<rparr>
             | GAUGE \<Rightarrow>
                 mc\<lparr>metrics := AList.update name (metric\<lparr>m_value := Num v\<rparr>) (metrics mc),
                    mc_updates := mc_updates mc @ [m_name metric]\<rparr>
             | HISTOGRAM \<Rightarrow>
                 mc\<lparr>metrics := AList.update name
                       (metric\<lparr>m_value := Hist (observe v (hist_of (Some (m_value metric))))\<rparr>)
                       (metrics mc),
                    mc_updates := mc_updates mc @ [m_name metric]\<rparr>))"

text \<open>
  \<open>incrementCounter\<close> and \<open>observeHistogram\<close> check the metric's type and call
  \<open>setMetric\<close>. The parameter default \<open>increment = 1\<close> stands in for an argument
  that is \<open>undefined\<close>.
\<close>

definition incrementCounter :: "MetricsCollector \<Rightarrow> string \<Rightarrow> jsvalue \<Rightarrow> labels \<Rightarrow> MetricsCollector" where
  "incrementCounter mc name increment0 labels =
     (let increment = (if increment0 = Undefined then Number 1 else increment0) in
      case map_of (metrics mc) name of
        None \<Rightarrow> mc\<lparr>mc_warnings := mc_warnings mc @
                    [''Attempted to increment unknown metric: '' @ name]\<rparr>
      | Some metric \<Rightarrow>
          if m_type metric \<noteq> COUNTER
          then mc\<lparr>mc_warnings := mc_warnings mc @ [''Metric '' @ name @ '' is not a counter'']\<rparr>
          else setMetric mc name increment labels)"

definition observeHistogram :: "MetricsCollector \<Rightarrow> string \<Rightarrow> jsvalue \<Rightarrow> labels \<Rightarrow> MetricsCollector" where
  "observeHistogram mc name v labels =
     (case map_of (metrics mc) name of
        None \<Rightarrow> mc\<lparr>mc_warnings := mc_warnings mc @
                    [''Attempted to observe unknown metric: '' @ name]\<rparr>
      | Some metric \<Rightarrow>
          if m_type metric \<noteq> HISTOGRAM
          then mc\<lparr>mc_warnings := mc_warnings mc @ [''Metric '' @ name @ '' is not a histogram'']\<rparr>
          else setMetric mc name v labels)"

text \<open>
  \<open>getMetric(name, labels)\<close>: \<open>null\<close> (\<open>None\<close>) for an unknown metric; with labels
  given for a labelled metric, \<open>labelValues.get(labelKey) || null\<close>, so that a missing
  tuple and a tuple holding a falsy value (0, \<open>NaN\<close>) both read as \<open>null\<close>; otherwise
  the base value.
\<close>

definition truthy_cell :: "cell \<Rightarrow> bool" where
  "truthy_cell c = (case c of Num v \<Rightarrow> js_truthy v | Hist h \<Rightarrow> True)"

definition getMetric :: "MetricsCollector \<Rightarrow> string \<Rightarrow> labels \<Rightarrow> cell option" where
  "getMetric mc name labels =
     (case map_of (metrics mc) name of
        None \<Rightarrow> None
      | Some metric \<Rightarrow>
          if labelNames metric \<noteq> [] \<and> labels \<noteq> [] then
            (case map_of (labelValues metric) (getLabelKey labels (labelNames metric)) of
               None \<Rightarrow> None
             | Some c \<Rightarrow> if truthy_cell c then Some c else None)
          else Some (m_value metric))"

text \<open>\<open>getMetrics()\<close>: the snapshot of all metrics with their label tuples.\<close>

record metricData =
  md_name :: string
  md_type :: MetricType
  md_help :: string
  md_labelNames :: "string list"
  md_value :: "cell option"
  md_values :: "((string \<times> string option) list \<times> cell) list option"

definition snapshot_of :: "metric \<Rightarrow> metricData" where
  "snapshot_of metric =
     (if labelNames metric = []
      then \<lparr>md_name = m_name metric, md_type = m_type metric, md_help = m_help metric,
            md_labelNames = labelNames metric, md_value = Some (m_value metric),
            md_values = None\<rparr>
      else \<lparr>md_name = m_name metric, md_type = m_type metric, md_help = m_help metric,
            md_labelNames = labelNames metric, md_value = None,
            md_values = Some (map (\<lambda>(labelKey, c). (parseLabelKey labelKey, c))
                                (labelValues metric))\<rparr>)"

definition getMetrics :: "MetricsCollector \<Rightarrow> metricData list" where
  "getMetrics mc = map (\<lambda>(name, metric). snapshot_of metric) (metrics mc)"

text \<open>
  \<open>exportPrometheusMetrics()\<close>. A line of the text is kept in parts: a help line, a type
  line, or a sample, whose text is everything before the blank (the metric name with its
  suffix and labels) and whose number is what is printed after it. The lines are joined
  by newlines in the source. \<open>Object.entries\<close> of the \<open>buckets\<close> object lists its
  keys, which are bucket boundaries, in increasing order.
\<close>

datatype prom_line =
  HelpLine string string
  | TypeLine string MetricType
  | Sample string jsvalue

definition dq :: string where
  "dq = [CHR 0x22]"

definition bucket_entries :: "histogram \<Rightarrow> (nat \<times> nat) list" where
  "bucket_entries h = List.map_filter (\<lambda>b. map_option (Pair b) (h_buckets h b)) buckets"

definition export_histogram :: "string \<Rightarrow> string option \<Rightarrow> histogram \<Rightarrow> prom_line list" where
  "export_histogram name labelString h =
     (let braces = (case labelString of None \<Rightarrow> [] | Some ls \<Rightarrow> ''{'' @ ls @ ''}'');
          le = (case labelString of None \<Rightarrow> ''{le='' | Some ls \<Rightarrow> ''{'' @ ls @ '',le='')
      in [Sample (name @ ''_sum'' @ braces) (h_sum h),
          Sample (name @ ''_count'' @ braces) (Number (real (h_count h)))]
         @ map (\<lambda>(bucket, count).
                  Sample (name @ ''_bucket'' @ le @ dq @ nat_text bucket @ dq @ ''}'')
                    (Number (real count)))
             (bucket_entries h)
         @ [Sample (name @ ''_bucket'' @ le @ dq @ ''+Inf'' @ dq @ ''}'')
              (Number (real (h_count h)))])"

definition labelString_of :: "string \<Rightarrow> string" where
  "labelString_of labelKey =
     join '',''
       (map (\<lambda>(k, v). k @ ''='' @ dq @ (case v of None \<Rightarrow> ''undefined'' | Some t \<Rightarrow> t) @ dq)
          (parseLabelKey labelKey))"

definition export_metric :: "metric \<Rightarrow> prom_line list" where
  "export_metric metric =
     [HelpLine (m_name metric) (m_help metric), TypeLine (m_name metric) (m_type metric)]
     @ (if labelNames metric = [] then
          (if m_type metric = HISTOGRAM
           then export_histogram (m_name metric) None (hist_of (Some (m_value metric)))
           else [Sample (m_name metric) (num_of (Some (m_value metric)))])
        else
          concat (map (\<lambda>(labelKey, c).
                         if m_type metric = HISTOGRAM
                         then export_histogram (m_name metric)
                                (Some (labelString_of labelKey)) (hist_of (Some c))
                         else [Sample (m_name metric @ ''{'' @ labelString_of labelKey @ ''}'')
                                 (num_of (Some c))])
                    (labelValues metric)))"

definition exportPrometheusMetrics :: "MetricsCollector \<Rightarrow> prom_line list" where
  "exportPrometheusMetrics mc = concat (map (\<lambda>(name, metric). export_metric metric) (metrics mc))"

text \<open>
  Scenario S1 of the specification: the counter \<open>http_requests\<close> with label names
  \<open>method\<close> and \<open>status\<close>, set twice with GET/200 and once with POST/201.
\<close>

definition labels_GET :: labels where
  "labels_GET = [(''method'', ''GET''), (''status'', ''200'')]"

definition labels_POST :: labels where
  "labels_POST = [(''method'', ''POST''), (''status'', ''201'')]"

definition scenario_S1_registered :: MetricsCollector where
  "scenario_S1_registered =
     registerMetric (new_MetricsCollector None) 0 ''http_requests'' COUNTER
       ''Total HTTP requests'' [''method'', ''status'']"

definition scenario_S1 :: MetricsCollector where
  "scenario_S1 =
     setMetric
       (setMetric (setMetric scenario_S1_registered ''http_requests'' (Number 1) labels_GET)
          ''http_requests'' (Number 1) labels_GET)
       ''http_requests'' (Number 1) labels_POST"

text \<open>
  The current value of a label tuple as \<open>setMetric\<close> reads it
  (\<open>labelValues.get(labelKey) || 0\<close>).
\<close>

definition tuple_value :: "MetricsCollector \<Rightarrow> string \<Rightarrow> labels \<Rightarrow> jsvalue" where
  "tuple_value mc name labels =
     (case map_of (metrics mc) name of
        None \<Rightarrow> Number 0
      | Some metric \<Rightarrow>
          or_zero (map_of (labelValues metric) (getLabelKey labels (labelNames metric))))"

text \<open>The cell a label tuple holds, as \<open>labelValues.get\<close> answers.\<close>

definition tuple_cell :: "MetricsCollector \<Rightarrow> string \<Rightarrow> labels \<Rightarrow> cell option" where
  "tuple_cell mc name labels =
     (case map_of (metrics mc) name of
        None \<Rightarrow> None
      | Some metric \<Rightarrow> map_of (labelValues metric) (getLabelKey labels (labelNames metric)))"

text \<open>
  The cell \<open>setMetric\<close> writes, from the metric's type, the value and the cell read, and
  the metric after the write: into the label tuple when the metric has label names,
  otherwise into its base value.
\<close>

definition new_cell :: "MetricType \<Rightarrow> jsvalue \<Rightarrow> jsvalue \<Rightarrow> cell option \<Rightarrow> cell" where
  "new_cell t v current old =
     (case t of
        COUNTER \<Rightarrow> Num (js_add current v)
      | GAUGE \<Rightarrow> Num v
      | HISTOGRAM \<Rightarrow> Hist (observe v (hist_of old)))"

definition written :: "metric \<Rightarrow> jsvalue \<Rightarrow> labels \<Rightarrow> metric" where
  "written metric v labels =
     (if labelNames metric \<noteq> [] then
        metric\<lparr>labelValues :=
          AList.update (getLabelKey labels (labelNames metric))
            (new_cell (m_type metric) v
               (or_zero (map_of (labelValues metric) (getLabelKey labels (labelNames metric))))
               (map_of (labelValues metric) (getLabelKey labels (labelNames metric))))
            (labelValues metric)\<rparr>
      else metric\<lparr>m_value := new_cell (m_type metric) v (num_of (Some (m_value metric)))
                                   (Some (m_value metric))\<rparr>)"

text \<open>
  The calls a client makes on the registry, and a sequence of them run from left to
  right.
\<close>

datatype metric_op =
  Register nat string MetricType string "string list"
  | SetMetric string jsvalue labels
  | IncrementCounter string jsvalue labels
  | ObserveHistogram string jsvalue labels

fun exec :: "metric_op \<Rightarrow> MetricsCollector \<Rightarrow> MetricsCollector" where
  "exec (Register now name type help names) mc = registerMetric mc now name type help names"
| "exec (SetMetric name v labels) mc = setMetric mc name v labels"
| "exec (IncrementCounter name v labels) mc = incrementCounter mc name v labels"
| "exec (ObserveHistogram name v labels) mc = observeHistogram mc name v labels"

definition run :: "metric_op list \<Rightarrow> MetricsCollector \<Rightarrow> MetricsCollector" where
  "run ops mc = foldl (\<lambda>s op. exec op s) mc ops"

text \<open>
  The value a reader of a counter gets from \<open>getMetric\<close>; \<open>null\<close> reads as 0, as it
  does in JavaScript arithmetic and comparison.
\<close>

definition counter_reading :: "MetricsCollector \<Rightarrow> string \<Rightarrow> labels \<Rightarrow> jsvalue" where
  "counter_reading mc name labels = num_of (getMetric mc name labels)"

text \<open>
  The invariant of the counters while every value they are given is a number: every
  counter cell holds a number that is not negative. \<open>numeric\<close> says that the value of a
  call is a number.
\<close>

definition nonneg :: "jsvalue \<Rightarrow> bool" where
  "nonneg v = js_le (Number 0) v"

definition counters_nonneg :: "MetricsCollector \<Rightarrow> bool" where
  "counters_nonneg mc =
     (\<forall>name m. map_of (metrics mc) name = Some m \<longrightarrow> m_type m = COUNTER \<longrightarrow>
        nonneg (num_of (Some (m_value m))) \<and> (\<forall>k. nonneg (num_of (map_of (labelValues m) k))))"

fun is_number :: "jsvalue \<Rightarrow> bool" where
  "is_number (Number x) = True"
| "is_number NaN = False"
| "is_number Undefined = False"

fun numeric :: "metric_op \<Rightarrow> bool" where
  "numeric (Register now name type descr names) = True"
| "numeric (SetMetric name v labels) = is_number v"
| "numeric (IncrementCounter name v labels) = is_number v"
| "numeric (ObserveHistogram name v labels) = is_number v"

text \<open>The metric \<open>registerMetric\<close> creates for a new name.\<close>

definition fresh_metric ::
  "MetricsCollector \<Rightarrow> nat \<Rightarrow> string \<Rightarrow> MetricType \<Rightarrow> string \<Rightarrow> string list \<Rightarrow> metric" where
  "fresh_metric mc now name type help names =
     \<lparr>m_name = prefix mc @ name, m_type = type, m_help = help, labelNames = names,
      created = now,
      m_value = (if type = HISTOGRAM then Hist empty_histogram else Num (Number 0)),
      labelValues = []\<rparr>"

text \<open>
  A counter \<open>jobs\<close> without labels that is registered and incremented by 2, and a
  counter \<open>hits\<close> labelled by \<open>route\<close> that is registered and incremented by 5 on
  route \<open>a\<close>.
\<close>

definition counter_ops :: "metric_op list" where
  "counter_ops =
     [Register 0 ''jobs'' COUNTER ''Jobs done'' [], IncrementCounter ''jobs'' (Number 2) []]"

definition labelled_counter_ops :: "metric_op list" where
  "labelled_counter_ops =
     [Register 0 ''hits'' COUNTER ''Hits'' [''route''],
      IncrementCounter ''hits'' (Number 5) [(''route'', ''a'')]]"

text \<open>
  The histogram cell a call with these labels writes to: the tuple's cell of a labelled
  histogram (an empty one while the tuple has none), the base value otherwise. Two
  label arguments address the same cell when the metric has no label names or they give
  the same key.
\<close>

definition hist_cell :: "MetricsCollector \<Rightarrow> string \<Rightarrow> labels \<Rightarrow> histogram" where
  "hist_cell mc name labels =
     (case map_of (metrics mc) name of
        None \<Rightarrow> empty_histogram
      | Some metric \<Rightarrow>
          if labelNames metric \<noteq> []
          then hist_of (map_of (labelValues metric) (getLabelKey labels (labelNames metric)))
          else hist_of (Some (m_value metric)))"

definition same_cell :: "string list \<Rightarrow> labels \<Rightarrow> labels \<Rightarrow> bool" where
  "same_cell names l1 l2 = (names = [] \<or> getLabelKey l1 names = getLabelKey l2 names)"

definition bucket_count :: "histogram \<Rightarrow> nat \<Rightarrow> nat" where
  "bucket_count h b = (case h_buckets h b of None \<Rightarrow> 0 | Some c \<Rightarrow> c)"

text \<open>A sequence of observations (value and labels) made on one histogram.\<close>

definition observeAll ::
  "MetricsCollector \<Rightarrow> string \<Rightarrow> (jsvalue \<times> labels) list \<Rightarrow> MetricsCollector" where
  "observeAll mc name obs = foldl (\<lambda>s (v, labels). observeHistogram s name v labels) mc obs"

text \<open>The text of the \<open>+Inf\<close> bucket sample of a histogram cell.\<close>

definition inf_bucket :: "string \<Rightarrow> string option \<Rightarrow> string" where
  "inf_bucket name labelString =
     name @ ''_bucket'' @
     (case labelString of None \<Rightarrow> ''{le='' | Some ls \<Rightarrow> ''{'' @ ls @ '',le='')
     @ dq @ ''+Inf'' @ dq @ ''}''"

text \<open>
  Whether the cell exists in the registry: always for a histogram without label names,
  and for a label tuple once it has been written.
\<close>

definition has_cell :: "MetricsCollector \<Rightarrow> string \<Rightarrow> labels \<Rightarrow> bool" where
  "has_cell mc name labels =
     (case map_of (metrics mc) name of
        None \<Rightarrow> False
      | Some metric \<Rightarrow>
          labelNames metric = []
          \<or> map_of (labelValues metric) (getLabelKey labels (labelNames metric)) \<noteq> None)"

text \<open>
  A histogram \<open>latency\<close> labelled by \<open>route\<close>, observed twice on route \<open>a\<close> and once
  on route \<open>b\<close>.
\<close>

definition latency_obs :: "(jsvalue \<times> labels) list" where
  "latency_obs = [(Number 3, [(''route'', ''a'')]), (Number 7, [(''route'', ''a'')]),
                  (Number 20000, [(''route'', ''b'')])]"

definition latency_scenario :: MetricsCollector where
  "latency_scenario =
     observeAll
       (registerMetric (new_MetricsCollector None) 0 ''latency'' HISTOGRAM ''Latency in ms''
          [''route''])
       ''latency'' latency_obs"


section \<open>Cache lock and stampede-protected cache (src/utils/CacheLock.js, src/utils/cache.js)\<close>

text \<open>
  Cached values are JSON values. The store keeps the text \<open>JSON.stringify(value)\<close> and
  \<open>get\<close> answers \<open>JSON.parse\<close> of it, which is the value again, so the model keeps the
  value itself. \<open>truthy\<close> is JavaScript's truthiness, which \<open>if (data)\<close> tests.
\<close>

datatype json =
  JNull
  | JBool bool
  | JNum int
  | JStr string
  | JArr "json list"
  | JObj "(string \<times> json) list"

fun truthy :: "json \<Rightarrow> bool" where
  "truthy JNull = False"
| "truthy (JBool b) = b"
| "truthy (JNum n) = (n \<noteq> 0)"
| "truthy (JStr s) = (s \<noteq> [])"
| "truthy (JArr xs) = True"
| "truthy (JObj kvs) = True"

text \<open>
  The key-value store both clients talk to: every key is written with an expiry
  (\<open>EX seconds\<close>), kept as the time in milliseconds at which the key is gone. The clock
  moves when the caller sleeps. \<open>down\<close> says that the store rejects commands.
  \<open>fallback_calls\<close> counts the calls of the fallback.
\<close>

record cache_state =
  store :: "string \<rightharpoonup> json \<times> nat"
  clock :: nat
  down :: bool
  fallback_calls :: nat

datatype cache_error =
  KeyError string
  | RedisError
  | FallbackError string

text \<open>The fallback is foreign code: it resolves with a value or rejects.\<close>

datatype fallback = Returns json | Throws string

definition live :: "cache_state \<Rightarrow> string \<Rightarrow> json option" where
  "live s key =
     (case store s key of
        None \<Rightarrow> None
      | Some (v, expireAt) \<Rightarrow> if clock s < expireAt then Some v else None)"

text \<open>
  \<open>CacheKeyGenerator.generate\<close> with the default prefix \<open>rdp\<close> and version \<open>v1\<close>.
\<close>

definition generateKey :: "string \<Rightarrow> string \<Rightarrow> string \<Rightarrow> cache_error + string" where
  "generateKey entity operation identifier =
     (if entity = [] then Inl (KeyError ''entity is required'')
      else if operation = [] then Inl (KeyError ''operation is required'')
      else if identifier = [] then Inl (KeyError ''identifier is required'')
      else Inr (''rdp:'' @ entity @ '':'' @ operation @ '':'' @ identifier @ '':v1''))"

text \<open>\<open>CacheLock\<close>: \<open>SET lock:<key> 1 NX EX ttl\<close>, and \<open>DEL\<close>. Both swallow errors.\<close>

definition getLockKey :: "string \<Rightarrow> string" where
  "getLockKey key = ''lock:'' @ key"

definition acquire :: "cache_state \<Rightarrow> string \<Rightarrow> nat \<Rightarrow> bool \<times> cache_state" where
  "acquire s key ttl =
     (if down s then (False, s)
      else if live s (getLockKey key) \<noteq> None then (False, s)
      else (True, s\<lparr>store := (store s)(getLockKey key \<mapsto> (JNum 1, clock s + ttl * 1000))\<rparr>))"

definition release :: "cache_state \<Rightarrow> string \<Rightarrow> cache_state" where
  "release s key = (if down s then s else s\<lparr>store := (store s)(getLockKey key := None)\<rparr>)"

text \<open>
  \<open>CacheService.get\<close> and \<open>set\<close> on a generated key: \<open>get\<close> answers \<open>null\<close> for a
  key that is not there; both rethrow the store's errors.
\<close>

definition cache_get :: "cache_state \<Rightarrow> string \<Rightarrow> cache_error + json" where
  "cache_get s key =
     (if down s then Inl RedisError
      else (case live s key of None \<Rightarrow> Inr JNull | Some v \<Rightarrow> Inr v))"

definition cache_set :: "cache_state \<Rightarrow> string \<Rightarrow> json \<Rightarrow> nat \<Rightarrow> cache_error + cache_state" where
  "cache_set s key v expireTime =
     (if down s then Inl RedisError
      else Inr (s\<lparr>store := (store s)(key \<mapsto> (v, clock s + expireTime * 1000))\<rparr>))"

definition sleep :: "nat \<Rightarrow> cache_state \<Rightarrow> cache_state" where
  "sleep ms s = s\<lparr>clock := clock s + ms\<rparr>"

text \<open>
  The time the lock of a key still has to live; the waiting caller's retries end when
  it has run out.
\<close>

definition lock_left :: "cache_state \<Rightarrow> string \<Rightarrow> nat" where
  "lock_left s key =
     (case store s (getLockKey key) of None \<Rightarrow> 0 | Some (v, expireAt) \<Rightarrow> expireAt - clock s)"

text \<open>
  \<open>getWithProtection(entity, operation, identifier, fallback, expireTime)\<close>, run by one
  caller with nobody else writing to the store. The \<open>finally\<close> releases the lock on
  every way out of the \<open>try\<close>.
\<close>

function getWithProtection ::
  "cache_state \<Rightarrow> string \<Rightarrow> string \<Rightarrow> string \<Rightarrow> fallback \<Rightarrow> nat
     \<Rightarrow> (cache_error + json) \<times> cache_state" where
  "getWithProtection s entity operation identifier fb expireTime =
     (case generateKey entity operation identifier of
        Inl e \<Rightarrow> (Inl e, s)
      | Inr cacheKey \<Rightarrow>
          (case cache_get s cacheKey of
             Inl e \<Rightarrow> (Inl e, s)
           | Inr data \<Rightarrow>
               if truthy data then (Inr data, s)
               else if \<not> fst (acquire s cacheKey 10)
               then getWithProtection (sleep 100 s) entity operation identifier fb expireTime
               else
                 (let s1 = snd (acquire s cacheKey 10) in
                  case cache_get s1 cacheKey of
                    Inl e \<Rightarrow> (Inl e, release s1 cacheKey)
                  | Inr data2 \<Rightarrow>
                      if truthy data2 then (Inr data2, release s1 cacheKey)
                      else
                        (let s2 = s1\<lparr>fallback_calls := fallback_calls s1 + 1\<rparr> in
                         case fb of
                           Throws e \<Rightarrow> (Inl (FallbackError e), release s2 cacheKey)
                         | Returns v \<Rightarrow>
                             (case cache_set s2 cacheKey v expireTime of
                                Inl e \<Rightarrow> (Inl e, release s2 cacheKey)
                              | Inr s3 \<Rightarrow> (Inr v, release s3 cacheKey))))))"
  by pat_completeness auto
termination
proof (relation "measure (\<lambda>(s, entity, operation, identifier, fb, expireTime).
          (case generateKey entity operation identifier of
             Inl e \<Rightarrow> 0 | Inr cacheKey \<Rightarrow> lock_left s cacheKey))")
  show "wf (measure (\<lambda>(s, entity, operation, identifier, fb, expireTime).
          (case generateKey entity operation identifier of
             Inl e \<Rightarrow> 0 | Inr cacheKey \<Rightarrow> lock_left s cacheKey)))"
    by simp
next
  fix s :: cache_state and entity operation ident :: string and fb :: fallback
    and expireTime :: nat and cacheKey :: string and data :: json
  assume k: "generateKey entity operation ident = Inr cacheKey"
    and g: "cache_get s cacheKey = Inr data"
    and a: "\<not> fst (acquire s cacheKey 10)"
  from g have up: "\<not> down s"
    by (auto simp: cache_get_def split: if_splits)
  with a obtain v expireAt where l: "store s (getLockKey cacheKey) = Some (v, expireAt)"
    and t: "clock s < expireAt"
    by (auto simp: acquire_def live_def split: option.splits if_splits)
  then have "lock_left (sleep 100 s) cacheKey < lock_left s cacheKey"
    by (simp add: lock_left_def sleep_def)
  with k show "((sleep 100 s, entity, operation, ident, fb, expireTime),
          (s, entity, operation, ident, fb, expireTime))
        \<in> measure (\<lambda>(s, entity, operation, identifier, fb, expireTime).
          (case generateKey entity operation identifier of
             Inl e \<Rightarrow> 0 | Inr cacheKey \<Rightarrow> lock_left s cacheKey))"
    by simp
qed

declare getWithProtection.simps [simp del]

text \<open>
  A store in which the key \<open>rdp:user:visits:123:v1\<close> is present and holds the cached
  value 0, with an hour to live; no lock is held.
\<close>

definition cached_zero :: cache_state where
  "cached_zero =
     \<lparr>store = [''rdp:user:visits:123:v1'' \<mapsto> (JNum 0, 3600000)], clock = 0, down = False,
      fallback_calls = 0\<rparr>"

text \<open>An empty store in which another holder has just taken the lock of the key.\<close>

definition lock_held :: cache_state where
  "lock_held =
     \<lparr>store = [''lock:rdp:user:profile:123:v1'' \<mapsto> (JNum 1, 10000)], clock = 0, down = False,
      fallback_calls = 0\<rparr>"

text \<open>
  Two callers ask for the absent key \<open>rdp:user:profile:123:v1\<close> with a fallback that
  resolves with 0. \<open>holder_done\<close> is the store as the caller that got the lock leaves
  it, starting from the empty store.
\<close>

definition empty_cache :: cache_state where
  "empty_cache = \<lparr>store = Map.empty, clock = 0, down = False, fallback_calls = 0\<rparr>"

definition holder_done :: cache_state where
  "holder_done =
     snd (getWithProtection empty_cache ''user'' ''profile'' ''123'' (Returns (JNum 0)) 3600)"


chapter \<open>Properties\<close>

subsection \<open>Health aggregation\<close>

lemma scanComponents_flags:
  "scanComponents cs (a, b) =
     (a \<or> (\<exists>c \<in> set (map snd cs). c_critical c \<and> c_status c = UNHEALTHY),
      b \<or> (\<exists>c \<in> set (map snd cs). \<not> c_critical c \<and> c_status c = UNHEALTHY))"
  by (induction cs "(a, b)" arbitrary: a b rule: scanComponents.induct) auto

lemma updateOverallStatus_status:
  "status (updateOverallStatus hc) =
     (if \<exists>c \<in> set (map snd (components hc)). c_critical c \<and> c_status c = UNHEALTHY
      then UNHEALTHY
      else if \<exists>c \<in> set (map snd (components hc)). \<not> c_critical c \<and> c_status c = UNHEALTHY
      then DEGRADED else HEALTHY)"
  by (simp add: updateOverallStatus_def scanComponents_flags)

lemma updateOverallStatus_components:
  "components (updateOverallStatus hc) = components hc"
  by (simp add: updateOverallStatus_def split: prod.splits)

lemma checkAll_status:
  "status (checkAll hc now) =
     (if \<exists>c \<in> set (map snd (components (checkAll hc now))).
           c_critical c \<and> c_status c = UNHEALTHY
      then UNHEALTHY
      else if \<exists>c \<in> set (map snd (components (checkAll hc now))).
                \<not> c_critical c \<and> c_status c = UNHEALTHY
      then DEGRADED else HEALTHY)"
  by (simp add: checkAll_def Let_def updateOverallStatus_status updateOverallStatus_components)



text \<open>
  A check that settles exactly when the timer fires keeps its own outcome; one
  millisecond later the timeout has won.
\<close>

lemma race_boundary:
  "race n \<lparr>check_fn = (\<lambda>_. (5000, Resolve None)), timeout = 5000, critical = True\<rparr> now
     = Resolve None"
  "race n \<lparr>check_fn = (\<lambda>_. (5001, Resolve None)), timeout = 5000, critical = True\<rparr> now
     = Reject (''Health check timeout for '' @ n)"
  by (simp_all add: race_def)




lemma runCheck_proto:
  "components (snd (runCheck hc now ''__proto__'' chk)) = components hc"
  by (cases "race ''__proto__'' chk now")
     (simp_all add: runCheck_def component_at_def set_component_def Let_def
        split: option.splits)



lemma checkAll_components:
  "components (checkAll hc now) =
     components (runChecks (hc\<lparr>lastCheck := Some now\<rparr>) now
                   (checks (hc\<lparr>lastCheck := Some now\<rparr>)))"
  by (simp add: checkAll_def Let_def updateOverallStatus_components)














text \<open>
  A check registered under the name \<open>__proto__\<close> runs, but its component is the
  prototype of the component object and \<open>_updateOverallStatus\<close> never sees it: the
  registry is healthy although its only check, a critical one, has failed.
\<close>

lemma proto_check_unseen:
  "map (\<lambda>(n, chk). (n, critical chk, failed n chk 0)) (checks scenario_proto) =
     [(''__proto__'', True, True)]
   \<and> components (checkAll scenario_proto 0) = []
   \<and> map_option c_status (components_proto (checkAll scenario_proto 0)) = Some UNHEALTHY
   \<and> status (checkAll scenario_proto 0) = HEALTHY"
proof -
  have c: "checks scenario_proto =
      [(''__proto__'', \<lparr>check_fn = (\<lambda>_. (1, Reject ''down'')), timeout = 5000,
                         critical = True\<rparr>)]"
    "components scenario_proto = []"
    by (simp_all add: scenario_proto_def registerCheck_def set_component_def Let_def
        new_HealthChecker_def)
  have e: "components (checkAll scenario_proto 0) = []"
    by (simp add: checkAll_components c runCheck_proto)
  have s: "status (checkAll scenario_proto 0) = HEALTHY"
    unfolding checkAll_status e by simp
  have p: "map_option c_status (components_proto (checkAll scenario_proto 0)) = Some UNHEALTHY"
    by (simp add: checkAll_def Let_def c updateOverallStatus_def runCheck_def component_at_def
        set_component_def race_def scenario_proto_def registerCheck_def new_HealthChecker_def
        split: prod.splits)
  show ?thesis by (simp add: c e s p failed_def race_def)
qed


subsection \<open>Dead-letter queue: bounded retry\<close>

lemma retryMessage_capped:
  assumes "\<not> get_down q" "dlq_jobs q (''dlq:'' @ mid) = Some d" "originalMessage d = Some m"
    "dlq_maxRetries q \<le> retries_of d"
  shows "retryMessage q now mid opts = (Inr False, q)"
  using assms by (simp add: retryMessage_def)

lemma retryMessage_below:
  assumes "\<not> get_down q" "dlq_jobs q (''dlq:'' @ mid) = Some d" "originalMessage d = Some m"
    "retries_of d < dlq_maxRetries q" "\<not> queue_down q (target_queue d)" "\<not> update_down q"
  shows "retryMessage q now mid opts =
           (Inr True,
            q\<lparr>added := added q @
                   [(target_queue d, m, Queue_add_options (opts(''attempts'' \<mapsto> ONum 1)))],
              dlq_jobs := (dlq_jobs q)(''dlq:'' @ mid \<mapsto> retried q now d)\<rparr>)"
  using assms by (simp add: retryMessage_def Let_def)

text \<open>
  The ways out of \<open>retryMessage\<close> through a rejection of the store. When
  \<open>job.update\<close> rejects, the message has been handed to the target queue and the stored
  record is as before.
\<close>

lemma retryMessage_get_rejected:
  "get_down q \<Longrightarrow> retryMessage q now mid opts = (Inl (StoreError (dlq_queueName q)), q)"
  by (simp add: retryMessage_def)

lemma retryMessage_malformed:
  assumes "\<not> get_down q" "dlq_jobs q (''dlq:'' @ mid) = Some d" "originalMessage d = None"
  shows "retryMessage q now mid opts = (Inl InvalidStructure, q)"
  using assms by (simp add: retryMessage_def)

lemma retryMessage_add_rejected:
  assumes "\<not> get_down q" "dlq_jobs q (''dlq:'' @ mid) = Some d" "originalMessage d = Some m"
    "retries_of d < dlq_maxRetries q" "queue_down q (target_queue d)"
  shows "retryMessage q now mid opts = (Inl (StoreError (target_queue d)), q)"
  using assms by (simp add: retryMessage_def)

lemma retryMessage_update_rejected:
  assumes "\<not> get_down q" "dlq_jobs q (''dlq:'' @ mid) = Some d" "originalMessage d = Some m"
    "retries_of d < dlq_maxRetries q" "\<not> queue_down q (target_queue d)" "update_down q"
  shows "retryMessage q now mid opts =
           (Inl (StoreError (dlq_queueName q)),
            q\<lparr>added := added q @
                   [(target_queue d, m, Queue_add_options (opts(''attempts'' \<mapsto> ONum 1)))]\<rparr>)"
  using assms by (simp add: retryMessage_def Let_def)

lemma retries_of_retried: "retries_of (retried q now d) = retries_of d + 1"
  by (simp add: retried_def retries_of_def default_meta_def)

lemma originalMessage_retried: "originalMessage (retried q now d) = originalMessage d"
  by (simp add: retried_def)

lemma target_queue_retried: "target_queue (retried q now d) = target_queue d"
  by (simp add: retried_def target_queue_def default_context_def falsy_def id_text_def
      split: option.splits)

lemma attempts_one:
  "Queue_add_options (opts(''attempts'' \<mapsto> ONum 1)) ''attempts'' = Some (ONum 1)"
  by (simp add: Queue_add_options_def)

lemma target_queue_context:
  "dl_context d = Some c \<Longrightarrow> originalQueue c = Some name \<Longrightarrow> name \<noteq> []
   \<Longrightarrow> target_queue d = name"
  by (simp add: target_queue_def default_context_def falsy_def id_text_def)

lemma target_queue_default:
  "dl_context d = None \<or> (\<exists>c. dl_context d = Some c \<and> falsy (originalQueue c))
   \<Longrightarrow> target_queue d = ''default-queue''"
  by (auto simp: target_queue_def default_context_def id_text_def)

lemma retries_of_meta:
  "retries_of d =
     (case dl_meta d of None \<Rightarrow> 0
      | Some mt \<Rightarrow> (case retryCount mt of None \<Rightarrow> 0 | Some c \<Rightarrow> c))"
  by (simp add: retries_of_def default_meta_def split: option.splits)

lemma retried_meta:
  "dl_meta d = Some mt \<Longrightarrow> retryCount mt = Some c \<Longrightarrow>
   dl_meta (retried q now d) =
     Some (mt\<lparr>retryCount := Some (c + 1), lastRetryAt := Some now,
              nextRetryAt := Some (now + dlq_retryInterval q * 2 ^ (c + 1))\<rparr>)"
  by (simp add: retried_def default_meta_def retries_of_def calculateNextRetryTime_def)

lemma retryTimes_up:
  assumes up: "\<not> get_down q" "\<And>n. \<not> queue_down q n" "\<not> update_down q"
    and job: "dlq_jobs q (''dlq:'' @ mid) = Some d" "originalMessage d = Some m"
  shows "fst (retryTimes k q now mid) =
           replicate (min k (dlq_maxRetries q - retries_of d)) (Inr True) @
           replicate (k - (dlq_maxRetries q - retries_of d)) (Inr False)
         \<and> added (snd (retryTimes k q now mid)) =
           added q @ replicate (min k (dlq_maxRetries q - retries_of d))
                       (retry_job d m Map.empty)"
  using assms
proof (induction k arbitrary: q d)
  case 0
  then show ?case by simp
next
  case (Suc k)
  show ?case
  proof (cases "dlq_maxRetries q \<le> retries_of d")
    case True
    then have r: "retryMessage q now mid Map.empty = (Inr False, q)"
      using Suc.prems by (simp add: retryMessage_capped)
    from True have z: "dlq_maxRetries q - retries_of d = 0" by simp
    show ?thesis
      using Suc.IH [OF Suc.prems] r z by (simp add: split_beta)
  next
    case False
    define q1 where "q1 = q\<lparr>added := added q @ [retry_job d m Map.empty],
              dlq_jobs := (dlq_jobs q)(''dlq:'' @ mid \<mapsto> retried q now d)\<rparr>"
    have r: "retryMessage q now mid Map.empty = (Inr True, q1)"
      unfolding q1_def retry_job_def using False Suc.prems by (intro retryMessage_below) auto
    have ih: "fst (retryTimes k q1 now mid) =
           replicate (min k (dlq_maxRetries q1 - retries_of (retried q now d))) (Inr True) @
           replicate (k - (dlq_maxRetries q1 - retries_of (retried q now d))) (Inr False)
         \<and> added (snd (retryTimes k q1 now mid)) =
           added q1 @ replicate (min k (dlq_maxRetries q1 - retries_of (retried q now d)))
             (retry_job (retried q now d) m Map.empty)"
      by (rule Suc.IH) (use Suc.prems in \<open>simp_all add: q1_def originalMessage_retried\<close>)
    have m: "dlq_maxRetries q1 = dlq_maxRetries q"
      "added q1 = added q @ [retry_job d m Map.empty]"
      by (simp_all add: q1_def)
    have rj: "retry_job (retried q now d) m Map.empty = retry_job d m Map.empty"
      by (simp add: retry_job_def target_queue_retried)
    from False obtain j where j: "dlq_maxRetries q - retries_of d = Suc j"
      by (metis Suc_diff_Suc not_le)
    then have j': "dlq_maxRetries q - Suc (retries_of d) = j" by simp
    show ?thesis
      using ih r by (simp add: split_beta m retries_of_retried rj j j')
  qed
qed

lemma retryTimes_update_rejected:
  assumes "\<not> get_down q" "dlq_jobs q (''dlq:'' @ mid) = Some d" "originalMessage d = Some m"
    "retries_of d < dlq_maxRetries q" "\<not> queue_down q (target_queue d)" "update_down q"
  shows "fst (retryTimes k q now mid) = replicate k (Inl (StoreError (dlq_queueName q)))
         \<and> added (snd (retryTimes k q now mid)) =
             added q @ replicate k (retry_job d m Map.empty)
         \<and> dlq_jobs (snd (retryTimes k q now mid)) = dlq_jobs q"
  using assms
proof (induction k arbitrary: q)
  case 0
  then show ?case by simp
next
  case (Suc k)
  define q1 where "q1 = q\<lparr>added := added q @ [retry_job d m Map.empty]\<rparr>"
  have r: "retryMessage q now mid Map.empty = (Inl (StoreError (dlq_queueName q)), q1)"
    unfolding q1_def retry_job_def using Suc.prems by (rule retryMessage_update_rejected)
  have ih: "fst (retryTimes k q1 now mid) = replicate k (Inl (StoreError (dlq_queueName q1)))
         \<and> added (snd (retryTimes k q1 now mid)) =
             added q1 @ replicate k (retry_job d m Map.empty)
         \<and> dlq_jobs (snd (retryTimes k q1 now mid)) = dlq_jobs q1"
    by (rule Suc.IH) (use Suc.prems in \<open>simp_all add: q1_def\<close>)
  show ?case
    using ih r by (simp add: split_beta q1_def replicate_append_same)
qed

text \<open>
  Claim C2, as the code has it. Let the store answer \<open>getJob\<close> with a record for the
  message that has its \<open>originalMessage\<close>; its retry count is \<open>meta.retryCount\<close>, and 0
  when \<open>meta\<close> or the count is missing. If the count has reached \<open>maxRetries\<close>,
  \<open>retryMessage\<close> returns false and nothing changes: no retry metadata is written and
  nothing is enqueued. Below the cap, when the target queue accepts the \<open>add\<close> and the
  store accepts \<open>job.update\<close>, \<open>retryMessage\<close> returns true, the original message is
  added to the queue named by \<open>context.originalQueue\<close> (\<open>default-queue\<close> when the
  context or the name is missing) with \<open>attempts: 1\<close>, and the stored record is replaced
  by one whose retry count is one higher. Hence, with a store that accepts these writes,
  \<open>k\<close> calls in a row answer true exactly \<open>min k (maxRetries - retryCount)\<close> times and
  enqueue that many jobs; all later calls answer false and enqueue nothing.
\<close>

theorem dlq_bounded_retry:
  assumes "\<not> get_down q" and "dlq_jobs q (''dlq:'' @ mid) = Some d"
    and "originalMessage d = Some m"
  shows
    "(dlq_maxRetries q \<le> retries_of d \<longrightarrow> retryMessage q now mid opts = (Inr False, q))
     \<and> (retries_of d < dlq_maxRetries q \<and> \<not> queue_down q (target_queue d) \<and> \<not> update_down q
          \<longrightarrow> retryMessage q now mid opts =
                (Inr True,
                 q\<lparr>added := added q @
                      [(target_queue d, m, Queue_add_options (opts(''attempts'' \<mapsto> ONum 1)))],
                   dlq_jobs := (dlq_jobs q)(''dlq:'' @ mid \<mapsto> retried q now d)\<rparr>)
              \<and> retries_of (retried q now d) = retries_of d + 1
              \<and> originalMessage (retried q now d) = Some m
              \<and> Queue_add_options (opts(''attempts'' \<mapsto> ONum 1)) ''attempts''
                  = Some (ONum 1))
     \<and> retries_of d =
         (case dl_meta d of None \<Rightarrow> 0
          | Some mt \<Rightarrow> (case retryCount mt of None \<Rightarrow> 0 | Some c \<Rightarrow> c))
     \<and> (\<forall>c name. dl_context d = Some c \<and> originalQueue c = Some name \<and> name \<noteq> []
           \<longrightarrow> target_queue d = name)
     \<and> (dl_context d = None \<longrightarrow> target_queue d = ''default-queue'')
     \<and> (\<forall>mt c. dl_meta d = Some mt \<and> retryCount mt = Some c
           \<longrightarrow> dl_meta (retried q now d) =
                 Some (mt\<lparr>retryCount := Some (c + 1), lastRetryAt := Some now,
                          nextRetryAt := Some (now + dlq_retryInterval q * 2 ^ (c + 1))\<rparr>))
     \<and> ((\<forall>n. \<not> queue_down q n) \<and> \<not> update_down q
          \<longrightarrow> (\<forall>k. fst (retryTimes k q now mid) =
                      replicate (min k (dlq_maxRetries q - retries_of d)) (Inr True) @
                      replicate (k - (dlq_maxRetries q - retries_of d)) (Inr False)
                    \<and> added (snd (retryTimes k q now mid)) =
                      added q @ replicate (min k (dlq_maxRetries q - retries_of d))
                        (target_queue d, m,
                         Queue_add_options (Map.empty(''attempts'' \<mapsto> ONum 1)))))"
proof -
  have capped: "retryMessage q now mid opts = (Inr False, q)"
    if "dlq_maxRetries q \<le> retries_of d"
    using assms that by (rule retryMessage_capped)
  have below: "retryMessage q now mid opts =
      (Inr True,
       q\<lparr>added := added q @
            [(target_queue d, m, Queue_add_options (opts(''attempts'' \<mapsto> ONum 1)))],
         dlq_jobs := (dlq_jobs q)(''dlq:'' @ mid \<mapsto> retried q now d)\<rparr>)"
    if "retries_of d < dlq_maxRetries q \<and> \<not> queue_down q (target_queue d) \<and> \<not> update_down q"
    using assms that by (simp add: retryMessage_below)
  have orig: "originalMessage (retried q now d) = Some m"
    using assms by (simp add: originalMessage_retried)
  have queue: "target_queue d = name"
    if "dl_context d = Some c \<and> originalQueue c = Some name \<and> name \<noteq> []" for c name
    using that by (simp add: target_queue_context)
  have dflt: "target_queue d = ''default-queue''" if "dl_context d = None"
    using that by (simp add: target_queue_default)
  have times: "fst (retryTimes k q now mid) =
           replicate (min k (dlq_maxRetries q - retries_of d)) (Inr True) @
           replicate (k - (dlq_maxRetries q - retries_of d)) (Inr False)
         \<and> added (snd (retryTimes k q now mid)) =
           added q @ replicate (min k (dlq_maxRetries q - retries_of d))
             (target_queue d, m, Queue_add_options (Map.empty(''attempts'' \<mapsto> ONum 1)))"
    if "(\<forall>n. \<not> queue_down q n) \<and> \<not> update_down q" for k
    using retryTimes_up [of q mid d m k now] assms that by (simp add: retry_job_def)
  have meta: "dl_meta (retried q now d) =
                 Some (mt\<lparr>retryCount := Some (c + 1), lastRetryAt := Some now,
                          nextRetryAt := Some (now + dlq_retryInterval q * 2 ^ (c + 1))\<rparr>)"
    if "dl_meta d = Some mt \<and> retryCount mt = Some c" for mt c
    using that by (simp add: retried_meta)
  from capped below orig queue dflt times meta retries_of_retried [of q now d]
    attempts_one [of opts] retries_of_meta [of d]
  show ?thesis by blast
qed

lemma scenario_S5_facts:
  "dlq_jobs scenario_S5 (''dlq:'' @ ''m1'') = Some record_m1"
  "originalMessage record_m1 = Some message_m1"
  "retries_of record_m1 = 0"
  "dlq_maxRetries scenario_S5 = 3"
  "queue_down scenario_S5 = (\<lambda>_. False)"
  "update_down scenario_S5 = False"
  "added scenario_S5 = []"
  "get_down scenario_S5 = False"
  "target_queue record_m1 = ''orders''"
  "dlq_queueName scenario_S5 = ''dead-letter-queue''"
  by (simp_all add: scenario_S5_def addFailedMessage_def new_DeadLetterQueue_def Let_def
      message_m1_def id_text_def record_m1_def calculateNextRetryTime_def retries_of_def
      default_meta_def target_queue_def default_context_def falsy_def)

lemma scenario_S5_up: "\<not> get_down scenario_S5"
  by (simp add: scenario_S5_facts)

theorem dlq_bounded_retry_witness:
  "fst (retryTimes 4 scenario_S5 9 ''m1'') = [Inr True, Inr True, Inr True, Inr False]
   \<and> map add_call (added (snd (retryTimes 4 scenario_S5 9 ''m1''))) =
       [(''orders'', message_m1, Some (ONum 1)), (''orders'', message_m1, Some (ONum 1)),
        (''orders'', message_m1, Some (ONum 1))]
   \<and> fst (retryTimes 7 scenario_S5 9 ''m1'') =
       [Inr True, Inr True, Inr True, Inr False, Inr False, Inr False, Inr False]
   \<and> map add_call (added (snd (retryTimes 7 scenario_S5 9 ''m1''))) =
       [(''orders'', message_m1, Some (ONum 1)), (''orders'', message_m1, Some (ONum 1)),
        (''orders'', message_m1, Some (ONum 1))]"
proof -
  define t where "t = (\<lambda>k. retryTimes k scenario_S5 9 ''m1'')"
  define job where "job = (''orders'', message_m1,
      Queue_add_options (Map.empty(''attempts'' \<mapsto> ONum 1)))"
  have c: "add_call job = (''orders'', message_m1, Some (ONum 1))"
    by (simp add: job_def add_call_def Queue_add_options_def)
  have "\<forall>k. fst (t k) = replicate (min k 3) (Inr True) @ replicate (k - 3) (Inr False)
          \<and> added (snd (t k)) = replicate (min k 3) job"
    using dlq_bounded_retry [OF scenario_S5_up scenario_S5_facts(1) scenario_S5_facts(2),
        of 9 Map.empty]
    by (simp add: scenario_S5_facts t_def job_def)
  then have "fst (t 4) = replicate (min 4 3) (Inr True) @ replicate (4 - 3) (Inr False)"
    and "added (snd (t 4)) = replicate (min 4 3) job"
    and "fst (t 7) = replicate (min 7 3) (Inr True) @ replicate (7 - 3) (Inr False)"
    and "added (snd (t 7)) = replicate (min 7 3) job"
    by blast+
  then have "fst (t 4) = [Inr True, Inr True, Inr True, Inr False]
     \<and> map add_call (added (snd (t 4))) = [add_call job, add_call job, add_call job]
     \<and> fst (t 7) = [Inr True, Inr True, Inr True, Inr False, Inr False, Inr False, Inr False]
     \<and> map add_call (added (snd (t 7))) = [add_call job, add_call job, add_call job]"
    by (simp add: numeral_eq_Suc)
  then show ?thesis by (simp add: t_def c)
qed

lemma scenario_S5_update_rejected_facts:
  "\<not> get_down scenario_S5_update_rejected"
  "dlq_jobs scenario_S5_update_rejected (''dlq:'' @ ''m1'') = Some record_m1"
  "retries_of record_m1 < dlq_maxRetries scenario_S5_update_rejected"
  "\<not> queue_down scenario_S5_update_rejected (target_queue record_m1)"
  "update_down scenario_S5_update_rejected"
  "added scenario_S5_update_rejected = []"
  "dlq_queueName scenario_S5_update_rejected = ''dead-letter-queue''"
  "dlq_maxRetries scenario_S5_update_rejected = 3"
  using scenario_S5_facts(1)
  by (simp_all add: scenario_S5_update_rejected_def scenario_S5_facts)

text \<open>
  The claim as it is written fails where the store rejects \<open>job.update\<close>: the record
  \<open>m1\<close> of S5 is below the cap, yet \<open>retryMessage\<close> does not return true, it throws
  the store's error after the message has been added to \<open>orders\<close>; the stored record keeps
  its retry count 0, and five calls in a row add the message five times, two more than
  \<open>maxRetries\<close>.
\<close>

theorem dlq_retry_unbounded:
  "dlq_jobs scenario_S5_update_rejected ''dlq:m1'' = Some record_m1
   \<and> dl_meta record_m1 = Some \<lparr>addedAt = Some 0, retryCount = Some 0, lastRetryAt = None,
                                nextRetryAt = Some 1800000\<rparr>
   \<and> dlq_maxRetries scenario_S5_update_rejected = 3
   \<and> fst (retryMessage scenario_S5_update_rejected 9 ''m1'' Map.empty) =
       Inl (StoreError ''dead-letter-queue'')
   \<and> map add_call (added (snd (retryMessage scenario_S5_update_rejected 9 ''m1'' Map.empty))) =
       [(''orders'', message_m1, Some (ONum 1))]
   \<and> fst (retryTimes 5 scenario_S5_update_rejected 9 ''m1'') =
       [Inl (StoreError ''dead-letter-queue''), Inl (StoreError ''dead-letter-queue''),
        Inl (StoreError ''dead-letter-queue''), Inl (StoreError ''dead-letter-queue''),
        Inl (StoreError ''dead-letter-queue'')]
   \<and> map add_call (added (snd (retryTimes 5 scenario_S5_update_rejected 9 ''m1''))) =
       [(''orders'', message_m1, Some (ONum 1)), (''orders'', message_m1, Some (ONum 1)),
        (''orders'', message_m1, Some (ONum 1)), (''orders'', message_m1, Some (ONum 1)),
        (''orders'', message_m1, Some (ONum 1))]
   \<and> dlq_jobs (snd (retryTimes 5 scenario_S5_update_rejected 9 ''m1'')) ''dlq:m1'' =
       Some record_m1"
proof -
  note f = scenario_S5_update_rejected_facts
  define job where "job = retry_job record_m1 message_m1 Map.empty"
  have c: "add_call job = (''orders'', message_m1, Some (ONum 1))"
    by (simp add: job_def retry_job_def add_call_def Queue_add_options_def scenario_S5_facts)
  have one: "retryMessage scenario_S5_update_rejected 9 ''m1'' Map.empty =
      (Inl (StoreError ''dead-letter-queue''),
       scenario_S5_update_rejected\<lparr>added := [job]\<rparr>)"
    using retryMessage_update_rejected [OF f(1) f(2) scenario_S5_facts(2) f(3) f(4) f(5),
        of 9 Map.empty]
    by (simp add: f job_def retry_job_def)
  define t where "t = retryTimes 5 scenario_S5_update_rejected 9 ''m1''"
  have "fst t = replicate 5 (Inl (StoreError ''dead-letter-queue''))
         \<and> added (snd t) = replicate 5 job
         \<and> dlq_jobs (snd t) = dlq_jobs scenario_S5_update_rejected"
    using retryTimes_update_rejected [OF f(1) f(2) scenario_S5_facts(2) f(3) f(4) f(5),
        of 5 9]
    by (simp add: f t_def job_def)
  then have five: "fst t = [Inl (StoreError ''dead-letter-queue''),
        Inl (StoreError ''dead-letter-queue''), Inl (StoreError ''dead-letter-queue''),
        Inl (StoreError ''dead-letter-queue''), Inl (StoreError ''dead-letter-queue'')]"
    and jobs: "map add_call (added (snd t)) =
        [add_call job, add_call job, add_call job, add_call job, add_call job]"
    and kept: "dlq_jobs (snd t) = dlq_jobs scenario_S5_update_rejected"
    by (simp_all add: numeral_eq_Suc)
  have stored: "dlq_jobs scenario_S5_update_rejected ''dlq:m1'' = Some record_m1"
    using f(2) by simp
  have meta: "dl_meta record_m1 = Some \<lparr>addedAt = Some 0, retryCount = Some 0,
      lastRetryAt = None, nextRetryAt = Some 1800000\<rparr>"
    by (simp add: record_m1_def)
  show ?thesis
    using five jobs kept stored meta
    by (simp add: one c f t_def [symmetric])
qed


subsection \<open>Message processor: one step of \<open>process\<close>\<close>

lemma process_invalid:
  "falsy (msg_id m) \<or> falsy (msg_type m) \<Longrightarrow> process p m = (Inl InvalidFormat, p)"
  by (subst process.simps) (simp add: Let_def)

lemma process_duplicate:
  "\<not> falsy (msg_id m) \<Longrightarrow> \<not> falsy (msg_type m)
   \<Longrightarrow> id_text (msg_id m) \<in> dom (processingMessages p)
   \<Longrightarrow> process p m = (Inl (AlreadyProcessing (id_text (msg_id m))), p)"
  by (subst process.simps) (simp add: Let_def)

lemma process_no_handler:
  "\<not> falsy (msg_id m) \<Longrightarrow> \<not> falsy (msg_type m)
   \<Longrightarrow> id_text (msg_id m) \<notin> dom (processingMessages p)
   \<Longrightarrow> handlers p (id_text (msg_type m)) = None
   \<Longrightarrow> process p m = (Inl (NoHandler (id_text (msg_type m))), p)"
  by (subst process.simps) (simp add: Let_def)

lemma process_success:
  assumes "accepted p m h"
    and "raceHandler (id_text (msg_id m)) (h (invocations p) (msg_data m)) = Inr result"
  shows "process p m =
     (Inr result,
      p\<lparr>invocations := invocations p + 1,
        mp_trace := mp_trace p @ [Processed (id_text (msg_id m)) result]\<rparr>)"
proof -
  from assms(1) have "processingMessages p (id_text (msg_id m)) = None"
    by (auto simp: accepted_def)
  then have "(processingMessages p)(id_text (msg_id m) := None) = processingMessages p"
    by (rule fun_upd_idem)
  with assms show ?thesis
    by (subst process.simps) (simp add: Let_def accepted_def)
qed

lemma calculateRetryDelay_recorded:
  "calculateRetryDelay p (attempt_no m) =
     min (real (mp_retryDelay p) * 2 ^ (attempt_no m - 1)) 30000"
  by (simp add: calculateRetryDelay_def attempt_no_def)

lemma calculateRetryDelay_zero:
  "calculateRetryDelay p 0 = min (real (mp_retryDelay p) / 2) 30000"
  by (simp add: calculateRetryDelay_def power_int_minus field_simps)

lemma raceHandler_failure:
  assumes "out = Rejects e \<and> err = HandlerError e \<or> out = Hangs \<and> err = ProcessingTimeout mid"
  shows "raceHandler mid out = Inl err"
  using assms by (auto simp: raceHandler_def)

lemma process_failure:
  assumes "accepted p m h"
    and "raceHandler (id_text (msg_id m)) (h (invocations p) (msg_data m)) = Inl err"
  shows "process p m =
     (if attempt_no m < mp_maxRetries p then
        process
          (p\<lparr>invocations := invocations p + 1,
             mp_trace := mp_trace p @
               [Retry (id_text (msg_id m)) err (attempt_no m)
                  (min (real (mp_retryDelay p) * 2 ^ (attempt_no m - 1)) 30000),
                Delay (min (real (mp_retryDelay p) * 2 ^ (attempt_no m - 1)) 30000)]\<rparr>)
          (m\<lparr>msg_attempts := Some (attempt_no m)\<rparr>)
      else
        (Inl err,
         p\<lparr>invocations := invocations p + 1,
           mp_trace := mp_trace p @ [Failed (id_text (msg_id m)) err (attempt_no m)]\<rparr>))"
proof -
  from assms(1) have "processingMessages p (id_text (msg_id m)) = None"
    by (auto simp: accepted_def)
  then have "(processingMessages p)(id_text (msg_id m) := None) = processingMessages p"
    by (rule fun_upd_idem)
  with assms show ?thesis
    by (subst process.simps)
       (simp add: Let_def accepted_def calculateRetryDelay_def attempt_no_def)
qed

lemma accepted_step:
  "accepted p m h \<Longrightarrow>
   accepted (p\<lparr>invocations := n, mp_trace := t\<rparr>) (m\<lparr>msg_attempts := a\<rparr>) h"
  by (simp add: accepted_def)

lemma rejects_twice_then_ok:
  assumes acc: "accepted p m h" and first: "msg_attempts m = None"
    and opts: "mp_maxRetries p = 3" "mp_retryDelay p = 100"
    and h0: "h (invocations p) (msg_data m) = Rejects e1"
    and h1: "h (invocations p + 1) (msg_data m) = Rejects e2"
    and h2: "h (invocations p + 2) (msg_data m) = Resolves ''ok''"
  shows "process p m =
     (Inr ''ok'',
      p\<lparr>invocations := invocations p + 3,
        mp_trace := mp_trace p @
          [Retry (id_text (msg_id m)) (HandlerError e1) 1 100, Delay 100,
           Retry (id_text (msg_id m)) (HandlerError e2) 2 200, Delay 200,
           Processed (id_text (msg_id m)) ''ok'']\<rparr>)"
proof -
  let ?i = "id_text (msg_id m)"
  define p1 where "p1 = p\<lparr>invocations := invocations p + 1,
             mp_trace := mp_trace p @ [Retry ?i (HandlerError e1) 1 100, Delay 100]\<rparr>"
  define m1 where "m1 = m\<lparr>msg_attempts := Some 1\<rparr>"
  define p2 where "p2 = p1\<lparr>invocations := invocations p1 + 1,
             mp_trace := mp_trace p1 @ [Retry ?i (HandlerError e2) 2 200, Delay 200]\<rparr>"
  define m2 where "m2 = m1\<lparr>msg_attempts := Some 2\<rparr>"
  have a0: "attempt_no m = 1" using first by (simp add: attempt_no_def)
  have a1: "attempt_no m1 = 2" by (simp add: attempt_no_def m1_def)
  have s1: "process p m = process p1 m1"
    using process_failure [OF acc, of "HandlerError e1"] h0 opts a0
    by (simp add: raceHandler_def p1_def m1_def)
  have acc1: "accepted p1 m1 h"
    unfolding p1_def m1_def by (rule accepted_step [OF acc])
  have s2: "process p1 m1 = process p2 m2"
    using process_failure [OF acc1, of "HandlerError e2"] h1 opts a1
    by (simp add: raceHandler_def p1_def m1_def p2_def m2_def)
  have acc2: "accepted p2 m2 h"
    unfolding p2_def m2_def by (rule accepted_step [OF acc1])
  have s3: "process p2 m2 = (Inr ''ok'',
      p2\<lparr>invocations := invocations p2 + 1,
        mp_trace := mp_trace p2 @ [Processed (id_text (msg_id m2)) ''ok'']\<rparr>)"
    using process_success [OF acc2, of "''ok''"] h2
    by (simp add: raceHandler_def p1_def m1_def p2_def m2_def)
  show ?thesis
    unfolding s1 s2 s3 by (simp add: p1_def p2_def m1_def m2_def)
qed

lemma not_duplicate:
  "id_text (msg_id m) \<notin> dom (processingMessages p)
   \<Longrightarrow> fst (process p m) \<noteq> Inl (AlreadyProcessing i)"
proof (induction p m rule: process.induct)
  case (1 p message)
  then show ?case
    by (subst process.simps)
       (auto simp: Let_def raceHandler_def split: option.splits sum.splits outcome.splits)
qed

subsection \<open>Message processor: bounded retry with exponential backoff\<close>

text \<open>
  Claim C3. Let a message pass the preconditions and let its handler call fail: the
  promise rejects with an error \<open>e\<close>, or it is still pending when the timeout timer
  fires, and then the error is \<open>Processing timeout for message <id>\<close>. With
  \<open>attempts\<close> the attempt count the processor has recorded for the message
  (\<open>attempt_no\<close>: the message's \<open>attempts\<close> field plus 1, so 1 for the first call):
  if it is below \<open>maxRetries\<close>, \<open>process\<close> emits \<open>retry\<close>, calls \<open>delay\<close> with
  min(retryDelay * 2^(attempts - 1), 30000) and continues as \<open>process\<close> of the message
  with that count, so that the next attempt count is \<open>attempts + 1\<close>; otherwise it emits
  \<open>failed\<close> and throws the error. With \<open>maxRetries = 3\<close> and \<open>retryDelay = 100\<close>, a
  handler that rejects twice and then resolves with \<open>ok\<close> makes \<open>process\<close> return \<open>ok\<close>
  after exactly three handler calls, with delays of 100 and 200.
\<close>

theorem process_bounded_retry:
  assumes "accepted p m h"
    and "h (invocations p) (msg_data m) = Rejects e \<and> err = HandlerError e
         \<or> h (invocations p) (msg_data m) = Hangs
           \<and> err = ProcessingTimeout (id_text (msg_id m))"
  shows
    "(attempt_no m < mp_maxRetries p \<longrightarrow>
        process p m =
          process
            (p\<lparr>invocations := invocations p + 1,
               mp_trace := mp_trace p @
                 [Retry (id_text (msg_id m)) err (attempt_no m)
                    (min (real (mp_retryDelay p) * 2 ^ (attempt_no m - 1)) 30000),
                  Delay (min (real (mp_retryDelay p) * 2 ^ (attempt_no m - 1)) 30000)]\<rparr>)
            (m\<lparr>msg_attempts := Some (attempt_no m)\<rparr>)
        \<and> attempt_no (m\<lparr>msg_attempts := Some (attempt_no m)\<rparr>) = attempt_no m + 1)
     \<and> (\<not> attempt_no m < mp_maxRetries p \<longrightarrow>
          process p m =
            (Inl err,
             p\<lparr>invocations := invocations p + 1,
               mp_trace := mp_trace p @ [Failed (id_text (msg_id m)) err (attempt_no m)]\<rparr>))
     \<and> calculateRetryDelay p (attempt_no m) =
          min (real (mp_retryDelay p) * 2 ^ (attempt_no m - 1)) 30000
     \<and> (\<forall>e1 e2.
          mp_maxRetries p = 3 \<and> mp_retryDelay p = 100 \<and> msg_attempts m = None
          \<and> h (invocations p) (msg_data m) = Rejects e1
          \<and> h (invocations p + 1) (msg_data m) = Rejects e2
          \<and> h (invocations p + 2) (msg_data m) = Resolves ''ok''
          \<longrightarrow> process p m =
                (Inr ''ok'',
                 p\<lparr>invocations := invocations p + 3,
                   mp_trace := mp_trace p @
                     [Retry (id_text (msg_id m)) (HandlerError e1) 1 100, Delay 100,
                      Retry (id_text (msg_id m)) (HandlerError e2) 2 200, Delay 200,
                      Processed (id_text (msg_id m)) ''ok'']\<rparr>))"
proof -
  note race = raceHandler_failure [OF assms(2)]
  note step = process_failure [OF assms(1) race]
  have retry: "process p m =
          process
            (p\<lparr>invocations := invocations p + 1,
               mp_trace := mp_trace p @
                 [Retry (id_text (msg_id m)) err (attempt_no m)
                    (min (real (mp_retryDelay p) * 2 ^ (attempt_no m - 1)) 30000),
                  Delay (min (real (mp_retryDelay p) * 2 ^ (attempt_no m - 1)) 30000)]\<rparr>)
            (m\<lparr>msg_attempts := Some (attempt_no m)\<rparr>)"
    if "attempt_no m < mp_maxRetries p"
    using step that by simp
  have next_no: "attempt_no (m\<lparr>msg_attempts := Some (attempt_no m)\<rparr>) = attempt_no m + 1"
    by (simp add: attempt_no_def)
  have give_up: "process p m =
            (Inl err,
             p\<lparr>invocations := invocations p + 1,
               mp_trace := mp_trace p @ [Failed (id_text (msg_id m)) err (attempt_no m)]\<rparr>)"
    if "\<not> attempt_no m < mp_maxRetries p"
    using step that by simp
  have s6: "process p m =
                (Inr ''ok'',
                 p\<lparr>invocations := invocations p + 3,
                   mp_trace := mp_trace p @
                     [Retry (id_text (msg_id m)) (HandlerError e1) 1 100, Delay 100,
                      Retry (id_text (msg_id m)) (HandlerError e2) 2 200, Delay 200,
                      Processed (id_text (msg_id m)) ''ok'']\<rparr>)"
    if "mp_maxRetries p = 3 \<and> mp_retryDelay p = 100 \<and> msg_attempts m = None
          \<and> h (invocations p) (msg_data m) = Rejects e1
          \<and> h (invocations p + 1) (msg_data m) = Rejects e2
          \<and> h (invocations p + 2) (msg_data m) = Resolves ''ok''" for e1 e2
    using rejects_twice_then_ok [OF assms(1), where ?e1.0 = e1 and ?e2.0 = e2] that by simp
  from retry next_no give_up s6 calculateRetryDelay_recorded [of p m]
  show ?thesis by blast
qed

lemma scenario_S6_facts:
  "accepted scenario_S6 message_j1 (\<lambda>n data. if n < 2 then Rejects ''not yet'' else Resolves ''ok'')"
  "invocations scenario_S6 = 0"
  "mp_trace scenario_S6 = []"
  "mp_maxRetries scenario_S6 = 3"
  "mp_retryDelay scenario_S6 = 100"
  "msg_attempts message_j1 = None"
  "id_text (msg_id message_j1) = ''j1''"
  by (simp_all add: accepted_def scenario_S6_def message_j1_def registerHandler_def
      new_MessageProcessor_def falsy_def id_text_def)

lemma scenario_timeout_facts:
  "accepted scenario_timeout message_j1 (\<lambda>n data. if n = 0 then Hangs else Resolves ''ok'')"
  "invocations scenario_timeout = 0"
  "mp_trace scenario_timeout = []"
  "mp_maxRetries scenario_timeout = 3"
  "mp_retryDelay scenario_timeout = 100"
  "attempt_no message_j1 = 1"
  "msg_data message_j1 = ''{}''"
  by (simp_all add: accepted_def scenario_timeout_def message_j1_def registerHandler_def
      new_MessageProcessor_def falsy_def id_text_def attempt_no_def)

lemma scenario_give_up_facts:
  "accepted scenario_give_up message_j1 (\<lambda>n data. Hangs)"
  "invocations scenario_give_up = 0"
  "mp_trace scenario_give_up = []"
  "mp_maxRetries scenario_give_up = 1"
  by (simp_all add: accepted_def scenario_give_up_def message_j1_def registerHandler_def
      new_MessageProcessor_def falsy_def id_text_def)

theorem process_bounded_retry_witness:
  "fst (process scenario_S6 message_j1) = Inr ''ok''
   \<and> invocations (snd (process scenario_S6 message_j1)) = 3
   \<and> mp_trace (snd (process scenario_S6 message_j1)) =
       [Retry ''j1'' (HandlerError ''not yet'') 1 100, Delay 100,
        Retry ''j1'' (HandlerError ''not yet'') 2 200, Delay 200,
        Processed ''j1'' ''ok'']
   \<and> fst (process scenario_timeout message_j1) = Inr ''ok''
   \<and> invocations (snd (process scenario_timeout message_j1)) = 2
   \<and> mp_trace (snd (process scenario_timeout message_j1)) =
       [Retry ''j1'' (ProcessingTimeout ''j1'') 1 100, Delay 100, Processed ''j1'' ''ok'']
   \<and> fst (process scenario_give_up message_j1) = Inl (ProcessingTimeout ''j1'')
   \<and> invocations (snd (process scenario_give_up message_j1)) = 1
   \<and> mp_trace (snd (process scenario_give_up message_j1)) =
       [Failed ''j1'' (ProcessingTimeout ''j1'') 1]"
proof -
  have s6: "fst (process scenario_S6 message_j1) = Inr ''ok''
   \<and> invocations (snd (process scenario_S6 message_j1)) = 3
   \<and> mp_trace (snd (process scenario_S6 message_j1)) =
       [Retry ''j1'' (HandlerError ''not yet'') 1 100, Delay 100,
        Retry ''j1'' (HandlerError ''not yet'') 2 200, Delay 200,
        Processed ''j1'' ''ok'']"
    using process_bounded_retry [OF scenario_S6_facts(1),
        of "''not yet''" "HandlerError ''not yet''"]
    by (simp add: scenario_S6_facts)
  let ?h = "\<lambda>n data. if n = (0::nat) then Hangs else Resolves ''ok''"
  let ?p1 = "scenario_timeout\<lparr>invocations := invocations scenario_timeout + 1,
               mp_trace := mp_trace scenario_timeout @
                 [Retry ''j1'' (ProcessingTimeout ''j1'') 1 100, Delay 100]\<rparr>"
  let ?m1 = "message_j1\<lparr>msg_attempts := Some 1\<rparr>"
  have t1: "process scenario_timeout message_j1 = process ?p1 ?m1"
    using process_bounded_retry [OF scenario_timeout_facts(1),
        of "[]" "ProcessingTimeout ''j1''"]
    by (simp add: scenario_timeout_facts scenario_S6_facts)
  have acc1: "accepted ?p1 ?m1 ?h"
    by (rule accepted_step [OF scenario_timeout_facts(1)])
  have t2: "process ?p1 ?m1 =
     (Inr ''ok'',
      ?p1\<lparr>invocations := invocations ?p1 + 1,
          mp_trace := mp_trace ?p1 @ [Processed (id_text (msg_id ?m1)) ''ok'']\<rparr>)"
    by (rule process_success [OF acc1]) (simp add: raceHandler_def scenario_timeout_facts)
  have tm: "fst (process scenario_timeout message_j1) = Inr ''ok''
   \<and> invocations (snd (process scenario_timeout message_j1)) = 2
   \<and> mp_trace (snd (process scenario_timeout message_j1)) =
       [Retry ''j1'' (ProcessingTimeout ''j1'') 1 100, Delay 100, Processed ''j1'' ''ok'']"
    unfolding t1 t2 by (simp add: scenario_timeout_facts scenario_S6_facts)
  have gu: "fst (process scenario_give_up message_j1) = Inl (ProcessingTimeout ''j1'')
   \<and> invocations (snd (process scenario_give_up message_j1)) = 1
   \<and> mp_trace (snd (process scenario_give_up message_j1)) =
       [Failed ''j1'' (ProcessingTimeout ''j1'') 1]"
    using process_bounded_retry [OF scenario_give_up_facts(1),
        of "[]" "ProcessingTimeout ''j1''"]
    by (simp add: scenario_give_up_facts scenario_timeout_facts scenario_S6_facts)
  from s6 tm gu show ?thesis by simp
qed

subsection \<open>Message processor: a failed precondition changes nothing\<close>

text \<open>
  Claim C10. A message without \<open>id\<close> or \<open>type\<close>, and a message whose type has no
  registered handler, make \<open>process\<close> throw at once and leave the processor as it was:
  no handler call, nothing emitted, no delay, the in-flight map untouched. So if the id
  was not in flight before, a later \<open>process\<close> of a message with that id is not rejected
  as a duplicate.
\<close>

theorem process_precondition_atomic:
  assumes "falsy (msg_id m) \<or> falsy (msg_type m) \<or> handlers p (id_text (msg_type m)) = None"
  shows
    "process p m =
       (Inl (if falsy (msg_id m) \<or> falsy (msg_type m) then InvalidFormat
             else if id_text (msg_id m) \<in> dom (processingMessages p)
             then AlreadyProcessing (id_text (msg_id m))
             else NoHandler (id_text (msg_type m))), p)
     \<and> invocations (snd (process p m)) = invocations p
     \<and> mp_trace (snd (process p m)) = mp_trace p
     \<and> processingMessages (snd (process p m)) = processingMessages p
     \<and> (\<forall>m' i. msg_id m' = msg_id m \<and> id_text (msg_id m) \<notin> dom (processingMessages p)
          \<longrightarrow> fst (process (snd (process p m)) m') \<noteq> Inl (AlreadyProcessing i))"
proof -
  have r: "process p m =
       (Inl (if falsy (msg_id m) \<or> falsy (msg_type m) then InvalidFormat
             else if id_text (msg_id m) \<in> dom (processingMessages p)
             then AlreadyProcessing (id_text (msg_id m))
             else NoHandler (id_text (msg_type m))), p)"
    using assms process_invalid [of m p] process_duplicate [of m p] process_no_handler [of m p]
    by auto
  have "fst (process p m') \<noteq> Inl (AlreadyProcessing i)"
    if "msg_id m' = msg_id m \<and> id_text (msg_id m) \<notin> dom (processingMessages p)" for m' i
    using that not_duplicate [of m' p i] by simp
  with r show ?thesis by simp
qed

theorem process_precondition_atomic_witness:
  "process scenario_S6 message_no_id = (Inl InvalidFormat, scenario_S6)
   \<and> process scenario_S6 message_unknown_type = (Inl (NoHandler ''other''), scenario_S6)
   \<and> fst (process (snd (process scenario_S6 message_unknown_type)) message_j1) = Inr ''ok''"
proof -
  have a: "falsy (msg_id message_no_id)"
    by (simp add: message_no_id_def falsy_def)
  have b: "handlers scenario_S6 (id_text (msg_type message_unknown_type)) = None"
    "\<not> falsy (msg_id message_unknown_type)" "\<not> falsy (msg_type message_unknown_type)"
    "id_text (msg_id message_unknown_type) \<notin> dom (processingMessages scenario_S6)"
    "id_text (msg_type message_unknown_type) = ''other''"
    by (simp_all add: message_unknown_type_def scenario_S6_def registerHandler_def
        new_MessageProcessor_def id_text_def falsy_def)
  have 1: "process scenario_S6 message_no_id = (Inl InvalidFormat, scenario_S6)"
    using process_precondition_atomic [of message_no_id scenario_S6] a by simp
  have 2: "process scenario_S6 message_unknown_type = (Inl (NoHandler ''other''), scenario_S6)"
    using process_precondition_atomic [of message_unknown_type scenario_S6] b by simp
  have 3: "process scenario_S6 message_j1 =
     (Inr ''ok'',
      scenario_S6\<lparr>invocations := invocations scenario_S6 + 3,
        mp_trace := mp_trace scenario_S6 @
          [Retry (id_text (msg_id message_j1)) (HandlerError ''not yet'') 1 100, Delay 100,
           Retry (id_text (msg_id message_j1)) (HandlerError ''not yet'') 2 200, Delay 200,
           Processed (id_text (msg_id message_j1)) ''ok'']\<rparr>)"
    by (rule rejects_twice_then_ok [OF scenario_S6_facts(1)])
       (simp_all add: scenario_S6_facts)
  show ?thesis by (simp add: 1 2 3)
qed


subsection \<open>Alert engine: a matching silence blocks the raise\<close>

lemma labelMatch_subset: "set matchLabels \<subseteq> set alertLabels \<Longrightarrow> labelMatch alertLabels matchLabels"
  by (auto simp: labelMatch_def list_all_iff)

lemma scanSilences_hit:
  assumes "s \<in> set sil" "s_name s = name \<or> s_name s = ''*''"
    "set (s_labels s) \<subseteq> set labels" "\<not> (0 < s_expireAt s \<and> s_expireAt s < now)"
  shows "fst (scanSilences now name labels sil)"
  using assms
proof (induction sil)
  case Nil
  then show ?case by simp
next
  case (Cons x sil)
  show ?case
  proof (cases "x = s")
    case True
    with Cons.prems show ?thesis
      by (auto simp: labelMatch_subset)
  next
    case False
    with Cons have "fst (scanSilences now name labels sil)" by simp
    then show ?thesis by (simp add: split_beta)
  qed
qed

text \<open>
  Claim C4. If the manager holds a silence that has not expired, whose name is the
  alert's name or the wildcard \<open>*\<close>, and whose labels all occur among the alert's labels,
  then \<open>alert(name, message, severity, labels)\<close> returns \<open>null\<close>, calls no notifier,
  and leaves the active-alert map (so also its entry for that name), the history and
  the emitted events as they were.
\<close>

theorem silence_blocks_raise:
  assumes "s \<in> set (silencedAlerts am)"
    and "s_name s = name \<or> s_name s = ''*''"
    and "set (s_labels s) \<subseteq> set labels"
    and "\<not> (0 < s_expireAt s \<and> s_expireAt s < now)"
  shows "fst (raise_alert am now name message severity labels data) = None
     \<and> delivered (snd (raise_alert am now name message severity labels data)) = delivered am
     \<and> alerts (snd (raise_alert am now name message severity labels data)) = alerts am
     \<and> map_of (alerts (snd (raise_alert am now name message severity labels data))) name
         = map_of (alerts am) name
     \<and> alertHistory (snd (raise_alert am now name message severity labels data))
         = alertHistory am
     \<and> am_emitted (snd (raise_alert am now name message severity labels data))
         = am_emitted am"
proof -
  have "fst (scanSilences now name labels (silencedAlerts am))"
    using assms by (rule scanSilences_hit)
  then obtain kept where "scanSilences now name labels (silencedAlerts am) = (True, kept)"
    by (cases "scanSilences now name labels (silencedAlerts am)") auto
  then have "raise_alert am now name message severity labels data =
      (None, am\<lparr>silencedAlerts := kept\<rparr>)"
    by (simp add: raise_alert_def isSilenced_def)
  then show ?thesis by simp
qed

lemma scenario_S3_facts:
  "silencedAlerts scenario_S3 = [silence_S3]"
  "delivered scenario_S3 = []"
  "alerts scenario_S3 = []"
  by (simp_all add: scenario_S3_def silence_alert_def new_AlertManager_def Let_def
      silence_S3_def)

theorem silence_blocks_raise_witness:
  "fst (raise_alert scenario_S3 2000 ''disk_full'' ''full'' ERROR [''node1''] None) = None
   \<and> delivered (snd (raise_alert scenario_S3 2000 ''disk_full'' ''full'' ERROR [''node1''] None))
       = []
   \<and> map_of (alerts (snd (raise_alert scenario_S3 2000 ''disk_full'' ''full'' ERROR
                              [''node1''] None))) ''disk_full'' = None"
  using silence_blocks_raise [of silence_S3 scenario_S3 "''disk_full''" "[''node1'']" 2000
      "''full''" ERROR None]
  by (simp add: scenario_S3_facts) (simp add: silence_S3_def)


subsection \<open>Metric registry: what \<open>setMetric\<close> writes\<close>

lemma setMetric_metrics:
  assumes "map_of (metrics mc) name = Some m"
  shows "metrics (setMetric mc name v labels) =
     (if m_type m = COUNTER \<and> js_less v (Number 0) then metrics mc
      else AList.update name (written m v labels) (metrics mc))"
  using assms
  by (cases "m_type m")
     (simp_all add: setMetric_def Let_def written_def new_cell_def)

lemma setMetric_unknown:
  "map_of (metrics mc) name = None \<Longrightarrow> metrics (setMetric mc name v labels) = metrics mc"
  by (simp add: setMetric_def)

lemma or_zero_number: "\<exists>r. or_zero c = Number r"
  by (cases c; cases "the c"; cases "case the c of Num v \<Rightarrow> v")
     (auto simp: or_zero_def split: option.splits cell.splits)

lemma or_zero_written: "or_zero (Some (Num (Number y))) = Number y"
  by (simp add: or_zero_def)

lemma tuple_cell_written:
  assumes "map_of (metrics mc) name = Some m" "m_type m = COUNTER" "labelNames m \<noteq> []"
    "\<not> js_less v (Number 0)"
  shows "tuple_cell (setMetric mc name v labels) name labels =
           Some (Num (js_add (tuple_value mc name labels) v))"
  using assms
  by (simp add: tuple_cell_def tuple_value_def setMetric_metrics update_conv' written_def
      new_cell_def)

lemma tuple_value_written:
  assumes "map_of (metrics mc) name = Some m" "m_type m = COUNTER" "labelNames m \<noteq> []" "0 \<le> x"
  shows "tuple_value (setMetric mc name (Number x) labels) name labels =
           js_add (tuple_value mc name labels) (Number x)"
proof -
  obtain r where r: "or_zero (map_of (labelValues m) (getLabelKey labels (labelNames m))) = Number r"
    using or_zero_number by blast
  from assms(4) have "\<not> js_less (Number x) (Number 0)" by simp
  with assms r show ?thesis
    by (simp add: tuple_value_def setMetric_metrics update_conv' written_def new_cell_def
        or_zero_written)
qed

lemma tuple_value_number: "\<exists>r. tuple_value mc name labels = Number r"
  using or_zero_number by (auto simp: tuple_value_def split: option.splits)

text \<open>Label names that are array indices come first in the parsed label object.\<close>

lemma parseLabelKey_order:
  "parseLabelKey ''b:x,10:y,2:z'' = [(''2'', Some ''z''), (''10'', Some ''y''), (''b'', Some ''x'')]"
  "labelString_of ''b:x,10:y,2:z'' =
     ''2='' @ dq @ ''z'' @ dq @ '',10='' @ dq @ ''y'' @ dq @ '',b='' @ dq @ ''x'' @ dq"
  by (simp_all add: labelString_of_def parseLabelKey_def own_keys_order_def is_index_def
      digit_def index_value_def)

lemma not_index: "\<not> is_index ''method''" "\<not> is_index ''status''"
  by (simp_all add: is_index_def digit_def)

lemma scenario_S1_snapshot:
  "getMetrics scenario_S1 =
     [\<lparr>md_name = ''app_http_requests'', md_type = COUNTER, md_help = ''Total HTTP requests'',
       md_labelNames = [''method'', ''status''], md_value = None,
       md_values = Some [([(''method'', Some ''GET''), (''status'', Some ''200'')],
                          Num (Number 2)),
                         ([(''method'', Some ''POST''), (''status'', Some ''201'')],
                          Num (Number 1))]\<rparr>]"
  by (simp add: getMetrics_def scenario_S1_def scenario_S1_registered_def registerMetric_def
      new_MetricsCollector_def setMetric_def labels_GET_def labels_POST_def getLabelKey_def
      or_zero_def snapshot_of_def parseLabelKey_def own_keys_order_def not_index Let_def)

subsection \<open>Labelled counter accumulation\<close>

text \<open>
  Claim C7. After registering the counter \<open>http_requests\<close> with label names
  \<open>method\<close> and \<open>status\<close>, two calls of \<open>set\<close> with value 1 and GET/200 and one with
  POST/201, the snapshot holds exactly two label tuples for the metric and the GET/200
  tuple has the value 2. In general, \<open>set\<close> with a number that is not negative adds the
  number to the current value of the label tuple of a labelled counter; and for every
  value that passes the test \<open>value < 0\<close> the cell written is the current value of the
  tuple (0 when it has none) plus the value, not the value.
\<close>

theorem labelled_counter_accumulates:
  "getMetrics scenario_S1 =
     [\<lparr>md_name = ''app_http_requests'', md_type = COUNTER, md_help = ''Total HTTP requests'',
       md_labelNames = [''method'', ''status''], md_value = None,
       md_values = Some [([(''method'', Some ''GET''), (''status'', Some ''200'')],
                          Num (Number 2)),
                         ([(''method'', Some ''POST''), (''status'', Some ''201'')],
                          Num (Number 1))]\<rparr>]
   \<and> (\<forall>mc name m x labels.
         map_of (metrics mc) name = Some m \<and> m_type m = COUNTER \<and> labelNames m \<noteq> [] \<and> 0 \<le> x
         \<longrightarrow> tuple_value (setMetric mc name (Number x) labels) name labels
               = js_add (tuple_value mc name labels) (Number x))
   \<and> (\<forall>mc name m v labels.
         map_of (metrics mc) name = Some m \<and> m_type m = COUNTER \<and> labelNames m \<noteq> []
         \<and> \<not> js_less v (Number 0)
         \<longrightarrow> tuple_cell (setMetric mc name v labels) name labels
               = Some (Num (js_add (tuple_value mc name labels) v)))
   \<and> (\<forall>mc name labels. \<exists>r. tuple_value mc name labels = Number r)
   \<and> (\<forall>r x. js_add (Number r) (Number x) = Number (r + x))"
  using scenario_S1_snapshot tuple_value_written tuple_cell_written tuple_value_number
  by simp

lemma scenario_S1_registered_facts:
  "map_of (metrics scenario_S1_registered) ''http_requests'' =
     Some \<lparr>m_name = ''app_http_requests'', m_type = COUNTER, m_help = ''Total HTTP requests'',
           labelNames = [''method'', ''status''], created = 0, m_value = Num (Number 0),
           labelValues = []\<rparr>"
  "tuple_value scenario_S1_registered ''http_requests'' labels_GET = Number 0"
  by (simp_all add: scenario_S1_registered_def registerMetric_def new_MetricsCollector_def
      tuple_value_def or_zero_def)

theorem labelled_counter_accumulates_witness:
  "tuple_value (setMetric scenario_S1_registered ''http_requests'' (Number 1) labels_GET)
     ''http_requests'' labels_GET = Number 1
   \<and> tuple_cell (setMetric scenario_S1_registered ''http_requests'' (Number 1) labels_GET)
       ''http_requests'' labels_GET = Some (Num (Number 1))
   \<and> map (\<lambda>d. map_option length (md_values d)) (getMetrics scenario_S1) = [Some 2]"
proof -
  let ?m = "\<lparr>m_name = ''app_http_requests'', m_type = COUNTER,
           m_help = ''Total HTTP requests'', labelNames = [''method'', ''status''],
           created = 0, m_value = Num (Number 0), labelValues = []\<rparr>"
  from labelled_counter_accumulates
  have snap: "getMetrics scenario_S1 =
     [\<lparr>md_name = ''app_http_requests'', md_type = COUNTER, md_help = ''Total HTTP requests'',
       md_labelNames = [''method'', ''status''], md_value = None,
       md_values = Some [([(''method'', Some ''GET''), (''status'', Some ''200'')],
                          Num (Number 2)),
                         ([(''method'', Some ''POST''), (''status'', Some ''201'')],
                          Num (Number 1))]\<rparr>]"
    and add: "\<And>mc name m x labels.
         map_of (metrics mc) name = Some m \<and> m_type m = COUNTER \<and> labelNames m \<noteq> [] \<and> 0 \<le> x
         \<Longrightarrow> tuple_value (setMetric mc name (Number x) labels) name labels
               = js_add (tuple_value mc name labels) (Number x)"
    and cell: "\<And>mc name m v labels.
         map_of (metrics mc) name = Some m \<and> m_type m = COUNTER \<and> labelNames m \<noteq> []
         \<and> \<not> js_less v (Number 0)
         \<Longrightarrow> tuple_cell (setMetric mc name v labels) name labels
               = Some (Num (js_add (tuple_value mc name labels) v))"
    by blast+
  have "tuple_value (setMetric scenario_S1_registered ''http_requests'' (Number 1) labels_GET)
          ''http_requests'' labels_GET
        = js_add (tuple_value scenario_S1_registered ''http_requests'' labels_GET) (Number 1)"
    by (rule add [where m = ?m]) (simp add: scenario_S1_registered_facts)
  moreover have "tuple_cell (setMetric scenario_S1_registered ''http_requests'' (Number 1) labels_GET)
          ''http_requests'' labels_GET
        = Some (Num (js_add (tuple_value scenario_S1_registered ''http_requests'' labels_GET)
                       (Number 1)))"
    by (rule cell [where m = ?m]) (simp add: scenario_S1_registered_facts)
  ultimately show ?thesis
    by (simp add: scenario_S1_registered_facts snap)
qed


subsection \<open>Metric registry: counters given numbers never go down\<close>

lemma or_zero_truthy: "num_of (if truthy_cell c then Some c else None) = or_zero (Some c)"
proof (cases c)
  case (Num v)
  then show ?thesis by (cases v) (simp_all add: num_of_def or_zero_def truthy_cell_def)
next
  case (Hist h)
  then show ?thesis by (simp add: num_of_def or_zero_def truthy_cell_def)
qed

lemma counter_reading_eq:
  "counter_reading mc name labels =
     (case map_of (metrics mc) name of
        None \<Rightarrow> Number 0
      | Some m \<Rightarrow> if labelNames m \<noteq> [] \<and> labels \<noteq> []
                  then or_zero (map_of (labelValues m) (getLabelKey labels (labelNames m)))
                  else num_of (Some (m_value m)))"
proof (cases "map_of (metrics mc) name")
  case None
  then show ?thesis by (simp add: counter_reading_def getMetric_def num_of_def)
next
  case (Some m)
  show ?thesis
  proof (cases "map_of (labelValues m) (getLabelKey labels (labelNames m))")
    case None
    with Some show ?thesis
      by (simp add: counter_reading_def getMetric_def num_of_def or_zero_def)
  next
    case (Some c)
    with \<open>map_of (metrics mc) name = Some m\<close> show ?thesis
      by (simp add: counter_reading_def getMetric_def or_zero_truthy)
  qed
qed

lemma nonneg_iff: "nonneg v \<longleftrightarrow> (\<exists>r. v = Number r \<and> 0 \<le> r)"
  by (cases v) (simp_all add: nonneg_def)

lemma or_zero_nonneg: "nonneg (num_of c) \<Longrightarrow> or_zero c = num_of c"
  by (auto simp: nonneg_iff num_of_def or_zero_def split: option.splits cell.splits)

lemma setMetric_cases:
  "metrics (setMetric mc name v labels) = metrics mc
   \<or> (\<exists>m. map_of (metrics mc) name = Some m \<and> \<not> (m_type m = COUNTER \<and> js_less v (Number 0))
         \<and> metrics (setMetric mc name v labels) =
             AList.update name (written m v labels) (metrics mc))"
proof (cases "map_of (metrics mc) name")
  case None
  then show ?thesis by (simp add: setMetric_unknown)
next
  case (Some m)
  then show ?thesis by (simp add: setMetric_metrics)
qed

lemma exec_cases:
  assumes "numeric op"
  shows "metrics (exec op mc) = metrics mc
   \<or> (\<exists>name m x labels. map_of (metrics mc) name = Some m \<and> \<not> (m_type m = COUNTER \<and> x < 0)
         \<and> metrics (exec op mc) = AList.update name (written m (Number x) labels) (metrics mc))
   \<or> (\<exists>name now t h ls. map_of (metrics mc) name = None
         \<and> metrics (exec op mc) = AList.update name (fresh_metric mc now name t h ls) (metrics mc))"
proof (cases op)
  case (Register now name t h ls)
  show ?thesis
  proof (cases "map_of (metrics mc) name")
    case None
    then have "metrics (exec op mc) =
        AList.update name (fresh_metric mc now name t h ls) (metrics mc)"
      by (simp add: Register registerMetric_def fresh_metric_def)
    with None show ?thesis by blast
  next
    case (Some m)
    then show ?thesis by (simp add: Register registerMetric_def)
  qed
next
  case (SetMetric name v labels)
  with assms obtain x where v: "v = Number x" by (cases v) simp_all
  from setMetric_cases [of mc name v labels] show ?thesis
    unfolding SetMetric v by simp blast
next
  case (IncrementCounter name v labels)
  with assms obtain x where v: "v = Number x" by (cases v) simp_all
  have "metrics (exec op mc) = metrics mc
      \<or> metrics (exec op mc) = metrics (setMetric mc name (Number x) labels)"
    by (simp add: IncrementCounter v incrementCounter_def split: option.splits)
  with setMetric_cases [of mc name "Number x" labels] show ?thesis
    by (elim disjE exE conjE) (simp, simp, simp, simp, metis)
next
  case (ObserveHistogram name v labels)
  with assms obtain x where v: "v = Number x" by (cases v) simp_all
  have "metrics (exec op mc) = metrics mc
      \<or> metrics (exec op mc) = metrics (setMetric mc name (Number x) labels)"
    by (simp add: ObserveHistogram v observeHistogram_def split: option.splits)
  with setMetric_cases [of mc name "Number x" labels] show ?thesis
    by (elim disjE exE conjE) (simp, simp, simp, simp, metis)
qed

lemma written_type: "m_type (written m v labels) = m_type m" "labelNames (written m v labels) = labelNames m"
  by (simp_all add: written_def)

lemma written_nonneg:
  assumes "m_type m = COUNTER" "0 \<le> x" "nonneg (num_of (Some (m_value m)))"
    "\<And>k. nonneg (num_of (map_of (labelValues m) k))"
  shows "nonneg (num_of (Some (m_value (written m (Number x) labels))))"
    "nonneg (num_of (map_of (labelValues (written m (Number x) labels)) k))"
proof -
  let ?key = "getLabelKey labels (labelNames m)"
  from assms(3) obtain r where r: "num_of (Some (m_value m)) = Number r" "0 \<le> r"
    by (auto simp: nonneg_iff)
  from assms(4) [of ?key] obtain s where s: "num_of (map_of (labelValues m) ?key) = Number s"
    "0 \<le> s"
    by (auto simp: nonneg_iff)
  then have oz: "or_zero (map_of (labelValues m) ?key) = Number s"
    using or_zero_nonneg [OF assms(4) [of ?key]] by simp
  show "nonneg (num_of (Some (m_value (written m (Number x) labels))))"
    using assms(1,2,3) r
    by (simp add: written_def new_cell_def nonneg_iff num_of_def)
  show "nonneg (num_of (map_of (labelValues (written m (Number x) labels)) k))"
    using assms(1,2) assms(4) [of k] oz s(2)
    by (simp add: written_def new_cell_def update_conv' nonneg_iff num_of_def)
qed

lemma written_mono:
  assumes "m_type m = COUNTER" "0 \<le> x" "nonneg (num_of (Some (m_value m)))"
    "\<And>k. nonneg (num_of (map_of (labelValues m) k))"
  shows "js_le (num_of (Some (m_value m))) (num_of (Some (m_value (written m (Number x) labels))))"
    "js_le (or_zero (map_of (labelValues m) k))
       (or_zero (map_of (labelValues (written m (Number x) labels)) k))"
proof -
  let ?key = "getLabelKey labels (labelNames m)"
  note after = written_nonneg [OF assms]
  from assms(3) obtain r where r: "num_of (Some (m_value m)) = Number r" "0 \<le> r"
    by (auto simp: nonneg_iff)
  from assms(4) [of ?key] obtain s where s: "num_of (map_of (labelValues m) ?key) = Number s"
    "0 \<le> s"
    by (auto simp: nonneg_iff)
  from assms(4) [of k] obtain t where t: "num_of (map_of (labelValues m) k) = Number t"
    "0 \<le> t"
    by (auto simp: nonneg_iff)
  have oz: "or_zero (map_of (labelValues m) ?key) = Number s"
    using or_zero_nonneg [OF assms(4) [of ?key]] s by simp
  have ozk: "or_zero (map_of (labelValues m) k) = Number t"
    using or_zero_nonneg [OF assms(4) [of k]] t by simp
  have ozk': "or_zero (map_of (labelValues (written m (Number x) labels)) k) =
        num_of (map_of (labelValues (written m (Number x) labels)) k)"
    by (rule or_zero_nonneg) (rule after(2))
  show "js_le (num_of (Some (m_value m))) (num_of (Some (m_value (written m (Number x) labels))))"
    using assms(1,2) r by (simp add: written_def new_cell_def num_of_def)
  show "js_le (or_zero (map_of (labelValues m) k))
       (or_zero (map_of (labelValues (written m (Number x) labels)) k))"
    unfolding ozk' ozk
    using assms(1,2) oz s t
    by (auto simp: written_def new_cell_def update_conv' num_of_def)
qed

lemma exec_inv:
  assumes "counters_nonneg mc" "numeric op"
  shows "counters_nonneg (exec op mc)"
  using exec_cases [OF assms(2), of mc]
proof (elim disjE exE conjE)
  assume "metrics (exec op mc) = metrics mc"
  with assms show ?thesis by (simp add: counters_nonneg_def)
next
  fix name m x labels
  assume m: "map_of (metrics mc) name = Some m" and ok: "\<not> (m_type m = COUNTER \<and> x < 0)"
    and e: "metrics (exec op mc) = AList.update name (written m (Number x) labels) (metrics mc)"
  show ?thesis
    unfolding counters_nonneg_def e update_conv'
  proof (intro allI impI)
    fix n m'
    assume a: "((map_of (metrics mc))(name \<mapsto> written m (Number x) labels)) n = Some m'"
      and c: "m_type m' = COUNTER"
    show "nonneg (num_of (Some (m_value m')))
          \<and> (\<forall>k. nonneg (num_of (map_of (labelValues m') k)))"
    proof (cases "n = name")
      case True
      with a have m': "m' = written m (Number x) labels" by simp
      with c have cm: "m_type m = COUNTER" by (simp add: written_type)
      with ok have v: "0 \<le> x" by simp
      from assms m cm have "nonneg (num_of (Some (m_value m)))"
        "\<And>k. nonneg (num_of (map_of (labelValues m) k))"
        by (auto simp: counters_nonneg_def)
      then show ?thesis unfolding m' using written_nonneg [OF cm v] by blast
    next
      case False
      with a have "map_of (metrics mc) n = Some m'" by simp
      with assms c show ?thesis by (auto simp: counters_nonneg_def)
    qed
  qed
next
  fix name now t h ls
  assume m: "map_of (metrics mc) name = None"
    and e: "metrics (exec op mc) = AList.update name (fresh_metric mc now name t h ls) (metrics mc)"
  show ?thesis
    unfolding counters_nonneg_def e update_conv'
  proof (intro allI impI)
    fix n m'
    assume a: "((map_of (metrics mc))(name \<mapsto> fresh_metric mc now name t h ls)) n = Some m'"
      and c: "m_type m' = COUNTER"
    show "nonneg (num_of (Some (m_value m')))
          \<and> (\<forall>k. nonneg (num_of (map_of (labelValues m') k)))"
    proof (cases "n = name")
      case True
      with a have m': "m' = fresh_metric mc now name t h ls" by simp
      with c show ?thesis by (simp add: fresh_metric_def num_of_def nonneg_def)
    next
      case False
      with a have "map_of (metrics mc) n = Some m'" by simp
      with assms c show ?thesis by (auto simp: counters_nonneg_def)
    qed
  qed
qed

lemma js_le_refl: "nonneg v \<Longrightarrow> js_le v v"
  by (auto simp: nonneg_iff)

lemma reading_nonneg:
  assumes "counters_nonneg mc" "map_of (metrics mc) name = Some m" "m_type m = COUNTER"
  shows "nonneg (counter_reading mc name labels)"
proof -
  from assms have a: "nonneg (num_of (Some (m_value m)))"
    and b: "nonneg (num_of (map_of (labelValues m) (getLabelKey labels (labelNames m))))"
    by (auto simp: counters_nonneg_def)
  from b have "or_zero (map_of (labelValues m) (getLabelKey labels (labelNames m))) =
      num_of (map_of (labelValues m) (getLabelKey labels (labelNames m)))"
    by (rule or_zero_nonneg)
  with a b assms(2) show ?thesis by (simp add: counter_reading_eq)
qed

lemma exec_mono:
  assumes "counters_nonneg mc" "numeric op"
    and "map_of (metrics mc) n = Some m0" "m_type m0 = COUNTER"
  shows "js_le (counter_reading mc n l) (counter_reading (exec op mc) n l)"
  using exec_cases [OF assms(2), of mc]
proof (elim disjE exE conjE)
  assume "metrics (exec op mc) = metrics mc"
  then have "counter_reading (exec op mc) n l = counter_reading mc n l"
    by (simp add: counter_reading_eq)
  with reading_nonneg [OF assms(1,3,4), of l] show ?thesis by (simp add: js_le_refl)
next
  fix name m x labels
  assume m: "map_of (metrics mc) name = Some m" and ok: "\<not> (m_type m = COUNTER \<and> x < 0)"
    and e: "metrics (exec op mc) = AList.update name (written m (Number x) labels) (metrics mc)"
  show ?thesis
  proof (cases "n = name")
    case True
    with m assms have mm: "m = m0" and v: "0 \<le> x" using ok by auto
    from assms(1,3,4) have inv: "nonneg (num_of (Some (m_value m0)))"
      "\<And>k. nonneg (num_of (map_of (labelValues m0) k))"
      by (auto simp: counters_nonneg_def)
    show ?thesis
      using written_mono [OF assms(4) v inv, where labels = labels] True assms(3)
      by (simp add: counter_reading_eq e update_conv' mm written_type)
  next
    case False
    then have "counter_reading (exec op mc) n l = counter_reading mc n l"
      by (simp add: counter_reading_eq e update_conv')
    with reading_nonneg [OF assms(1,3,4), of l] show ?thesis by (simp add: js_le_refl)
  qed
next
  fix name now t h ls
  assume m: "map_of (metrics mc) name = None"
    and e: "metrics (exec op mc) = AList.update name (fresh_metric mc now name t h ls) (metrics mc)"
  from m assms have "n \<noteq> name" by auto
  then have "counter_reading (exec op mc) n l = counter_reading mc n l"
    by (simp add: counter_reading_eq e update_conv')
  with reading_nonneg [OF assms(1,3,4), of l] show ?thesis by (simp add: js_le_refl)
qed

lemma run_Cons: "run (op # ops) mc = run ops (exec op mc)"
  by (simp add: run_def)

lemma run_snoc: "run (ops @ [op]) mc = exec op (run ops mc)"
  by (simp add: run_def)

lemma run_inv: "counters_nonneg mc \<Longrightarrow> list_all numeric ops \<Longrightarrow> counters_nonneg (run ops mc)"
proof (induction ops arbitrary: mc)
  case Nil
  then show ?case by (simp add: run_def)
next
  case (Cons op ops)
  then show ?case by (simp add: run_Cons exec_inv)
qed

lemma new_nonneg: "counters_nonneg (new_MetricsCollector p)"
  by (simp add: counters_nonneg_def new_MetricsCollector_def)

lemma setMetric_rejects:
  assumes "map_of (metrics mc) name = Some m" "m_type m = COUNTER" "js_less v (Number 0)"
  shows "metrics (setMetric mc name v labels) = metrics mc"
    and "mc_updates (setMetric mc name v labels) = mc_updates mc"
    and "last (mc_warnings (setMetric mc name v labels)) =
           ''Cannot decrease counter metric '' @ name"
    and "incrementCounter mc name v labels = setMetric mc name v labels"
proof -
  from assms(3) have "v \<noteq> Undefined" by auto
  with assms show "metrics (setMetric mc name v labels) = metrics mc"
    and "mc_updates (setMetric mc name v labels) = mc_updates mc"
    and "last (mc_warnings (setMetric mc name v labels)) =
           ''Cannot decrease counter metric '' @ name"
    and "incrementCounter mc name v labels = setMetric mc name v labels"
    by (simp_all add: setMetric_def incrementCounter_def Let_def)
qed

text \<open>
  Counters that are given numbers only. A \<open>set\<close> or \<open>incrementCounter\<close> with a
  negative number on a counter, labelled or not, is refused (a warning is logged, no cell
  changes and no update event is emitted); and as long as every value handed to the
  registry is a number, what \<open>getMetric\<close> reads from a counter is a number that is not
  negative, and no further call with a number makes it smaller.
\<close>

lemma counter_monotone_numeric:
  "(\<forall>mc name m x labels.
      map_of (metrics mc) name = Some m \<and> m_type m = COUNTER \<and> x < 0 \<longrightarrow>
        metrics (setMetric mc name (Number x) labels) = metrics mc
        \<and> metrics (incrementCounter mc name (Number x) labels) = metrics mc
        \<and> mc_updates (setMetric mc name (Number x) labels) = mc_updates mc
        \<and> last (mc_warnings (setMetric mc name (Number x) labels)) =
            ''Cannot decrease counter metric '' @ name)
   \<and> (\<forall>p ops name m labels.
        list_all numeric ops
        \<and> map_of (metrics (run ops (new_MetricsCollector p))) name = Some m \<and> m_type m = COUNTER
        \<longrightarrow> js_le (Number 0) (counter_reading (run ops (new_MetricsCollector p)) name labels))
   \<and> (\<forall>p ops op name m labels.
        list_all numeric ops \<and> numeric op
        \<and> map_of (metrics (run ops (new_MetricsCollector p))) name = Some m \<and> m_type m = COUNTER
        \<longrightarrow> js_le (counter_reading (run ops (new_MetricsCollector p)) name labels)
              (counter_reading (run (ops @ [op]) (new_MetricsCollector p)) name labels))"
proof (intro conjI allI impI)
  fix mc :: MetricsCollector and name :: string and m :: metric and x :: real
    and labels :: labels
  assume a: "map_of (metrics mc) name = Some m \<and> m_type m = COUNTER \<and> x < 0"
  then have l: "js_less (Number x) (Number 0)" by simp
  note r = setMetric_rejects [of mc name m "Number x" labels, OF _ _ l]
  from a r show "metrics (setMetric mc name (Number x) labels) = metrics mc"
    by simp
  from a r show "metrics (incrementCounter mc name (Number x) labels) = metrics mc"
    by simp
  from a r show "mc_updates (setMetric mc name (Number x) labels) = mc_updates mc"
    by simp
  from a r show "last (mc_warnings (setMetric mc name (Number x) labels)) =
            ''Cannot decrease counter metric '' @ name"
    by simp
next
  fix p ops name m labels
  assume "list_all numeric ops
        \<and> map_of (metrics (run ops (new_MetricsCollector p))) name = Some m \<and> m_type m = COUNTER"
  then show "js_le (Number 0) (counter_reading (run ops (new_MetricsCollector p)) name labels)"
    using reading_nonneg [OF run_inv [OF new_nonneg], of ops p name m labels]
    by (simp add: nonneg_def)
next
  fix p ops op name m labels
  assume "list_all numeric ops \<and> numeric op
        \<and> map_of (metrics (run ops (new_MetricsCollector p))) name = Some m \<and> m_type m = COUNTER"
  then show "js_le (counter_reading (run ops (new_MetricsCollector p)) name labels)
              (counter_reading (run (ops @ [op]) (new_MetricsCollector p)) name labels)"
    using exec_mono [OF run_inv [OF new_nonneg], of ops op p name m labels]
    by (simp add: run_snoc)
qed

lemma counter_ops_facts:
  "map_of (metrics (run counter_ops (new_MetricsCollector None))) ''jobs'' =
     Some \<lparr>m_name = ''app_jobs'', m_type = COUNTER, m_help = ''Jobs done'', labelNames = [],
           created = 0, m_value = Num (Number 2), labelValues = []\<rparr>"
  "mc_warnings (run counter_ops (new_MetricsCollector None)) = []"
  by (simp_all add: counter_ops_def run_def registerMetric_def new_MetricsCollector_def
      incrementCounter_def setMetric_def num_of_def)

lemma labelled_counter_ops_facts:
  "map_of (metrics (run labelled_counter_ops (new_MetricsCollector None))) ''hits'' =
     Some \<lparr>m_name = ''app_hits'', m_type = COUNTER, m_help = ''Hits'', labelNames = [''route''],
           created = 0, m_value = Num (Number 0),
           labelValues = [(''route:a'', Num (Number 5))]\<rparr>"
  "mc_warnings (run labelled_counter_ops (new_MetricsCollector None)) = []"
  by (simp_all add: labelled_counter_ops_def run_def registerMetric_def new_MetricsCollector_def
      incrementCounter_def setMetric_def or_zero_def getLabelKey_def Let_def)

text \<open>
  Claim C9 at an input where it fails: the value \<open>NaN\<close>. It is not negative to the
  test \<open>value < 0\<close>, so it is not refused and nothing is warned; it is added to the
  cell. The counter \<open>jobs\<close>, which read 2, then reads \<open>NaN\<close>, which is not at least 0,
  and stays so whatever is added later. The tuple of the labelled counter \<open>hits\<close>, which
  read 5, then reads \<open>null\<close> and, after one more increment by 1, reads 1. An
  \<open>undefined\<close> value does to \<open>set\<close> what \<open>NaN\<close> does.
\<close>

theorem counter_nan_accepted:
  "getMetric (run counter_ops (new_MetricsCollector None)) ''jobs'' [] = Some (Num (Number 2))
   \<and> getMetric (incrementCounter (run counter_ops (new_MetricsCollector None)) ''jobs'' NaN [])
       ''jobs'' [] = Some (Num NaN)
   \<and> mc_warnings (incrementCounter (run counter_ops (new_MetricsCollector None)) ''jobs'' NaN [])
       = []
   \<and> \<not> js_le (Number 0)
         (counter_reading
            (incrementCounter (run counter_ops (new_MetricsCollector None)) ''jobs'' NaN [])
            ''jobs'' [])
   \<and> getMetric
       (incrementCounter
          (incrementCounter (run counter_ops (new_MetricsCollector None)) ''jobs'' NaN [])
          ''jobs'' (Number 1) [])
       ''jobs'' [] = Some (Num NaN)
   \<and> getMetric (setMetric (run counter_ops (new_MetricsCollector None)) ''jobs'' Undefined [])
       ''jobs'' [] = Some (Num NaN)
   \<and> getMetric (run labelled_counter_ops (new_MetricsCollector None)) ''hits''
       [(''route'', ''a'')] = Some (Num (Number 5))
   \<and> getMetric
       (setMetric (run labelled_counter_ops (new_MetricsCollector None)) ''hits'' NaN
          [(''route'', ''a'')])
       ''hits'' [(''route'', ''a'')] = None
   \<and> getMetric
       (incrementCounter
          (setMetric (run labelled_counter_ops (new_MetricsCollector None)) ''hits'' NaN
             [(''route'', ''a'')])
          ''hits'' (Number 1) [(''route'', ''a'')])
       ''hits'' [(''route'', ''a'')] = Some (Num (Number 1))"
proof -
  define mc where "mc = run counter_ops (new_MetricsCollector None)"
  define ml where "ml = run labelled_counter_ops (new_MetricsCollector None)"
  note f = counter_ops_facts [folded mc_def] labelled_counter_ops_facts [folded ml_def]
  have j1: "getMetric mc ''jobs'' [] = Some (Num (Number 2))"
    by (simp add: getMetric_def f)
  have j2: "metrics (incrementCounter mc ''jobs'' NaN []) =
      AList.update ''jobs''
        \<lparr>m_name = ''app_jobs'', m_type = COUNTER, m_help = ''Jobs done'', labelNames = [],
         created = 0, m_value = Num NaN, labelValues = []\<rparr> (metrics mc)"
    "mc_warnings (incrementCounter mc ''jobs'' NaN []) = []"
    by (simp_all add: incrementCounter_def setMetric_def f num_of_def)
  have j3: "getMetric (incrementCounter mc ''jobs'' NaN []) ''jobs'' [] = Some (Num NaN)"
    by (simp add: getMetric_def j2 update_conv')
  have j4: "getMetric (incrementCounter (incrementCounter mc ''jobs'' NaN []) ''jobs''
      (Number 1) []) ''jobs'' [] = Some (Num NaN)"
    by (simp add: getMetric_def incrementCounter_def [of "incrementCounter mc ''jobs'' NaN []"]
        setMetric_def [of "incrementCounter mc ''jobs'' NaN []"] j2 update_conv' num_of_def)
  have j5: "getMetric (setMetric mc ''jobs'' Undefined []) ''jobs'' [] = Some (Num NaN)"
    by (simp add: getMetric_def setMetric_def f update_conv' num_of_def)
  have l1: "getMetric ml ''hits'' [(''route'', ''a'')] = Some (Num (Number 5))"
    by (simp add: getMetric_def f getLabelKey_def truthy_cell_def)
  have l2: "metrics (setMetric ml ''hits'' NaN [(''route'', ''a'')]) =
      AList.update ''hits''
        \<lparr>m_name = ''app_hits'', m_type = COUNTER, m_help = ''Hits'', labelNames = [''route''],
         created = 0, m_value = Num (Number 0), labelValues = [(''route:a'', Num NaN)]\<rparr>
        (metrics ml)"
    by (simp add: setMetric_def f getLabelKey_def or_zero_def Let_def)
  have l3: "getMetric (setMetric ml ''hits'' NaN [(''route'', ''a'')]) ''hits''
      [(''route'', ''a'')] = None"
    by (simp add: getMetric_def l2 update_conv' getLabelKey_def truthy_cell_def)
  have l4: "getMetric (incrementCounter (setMetric ml ''hits'' NaN [(''route'', ''a'')]) ''hits''
      (Number 1) [(''route'', ''a'')]) ''hits'' [(''route'', ''a'')] = Some (Num (Number 1))"
    by (simp add: getMetric_def
        incrementCounter_def [of "setMetric ml ''hits'' NaN [(''route'', ''a'')]"]
        setMetric_def [of "setMetric ml ''hits'' NaN [(''route'', ''a'')]"]
        l2 update_conv' getLabelKey_def or_zero_def truthy_cell_def Let_def)
  have r: "counter_reading (incrementCounter mc ''jobs'' NaN []) ''jobs'' [] = NaN"
    by (simp add: counter_reading_def j3 num_of_def)
  show ?thesis
    unfolding mc_def [symmetric] ml_def [symmetric]
    by (simp add: j1 j2 j3 j4 j5 l1 l3 l4 r)
qed


subsection \<open>Metric registry: histogram cells\<close>

lemma bumpBuckets_other: "b \<notin> set bs \<Longrightarrow> bumpBuckets v bs f b = f b"
  by (induction bs arbitrary: f) auto

lemma bumpBuckets_in:
  "distinct bs \<Longrightarrow> b \<in> set bs \<Longrightarrow>
   bumpBuckets v bs f b =
     (if js_le v (Number (real b)) then Some ((case f b of None \<Rightarrow> 0 | Some c \<Rightarrow> c) + 1)
      else f b)"
proof (induction bs arbitrary: f)
  case Nil
  then show ?case by simp
next
  case (Cons x bs)
  show ?case
  proof (cases "b = x")
    case True
    with Cons.prems have "b \<notin> set bs" by simp
    then show ?thesis using True by (simp add: bumpBuckets_other)
  next
    case False
    with Cons show ?thesis by simp
  qed
qed

lemma distinct_buckets: "distinct buckets"
  by (simp add: buckets_def)

lemma observe_fields:
  "h_count (observe v h) = h_count h + 1"
  "h_sum (observe v h) = js_add (h_sum h) v"
  by (simp_all add: observe_def)

lemma observe_buckets:
  "h_buckets (observe v h) b =
     (if b \<in> set buckets \<and> js_le v (Number (real b)) then Some (bucket_count h b + 1)
      else h_buckets h b)"
proof (cases "b \<in> set buckets")
  case True
  then show ?thesis
    by (simp add: observe_def bucket_count_def bumpBuckets_in [OF distinct_buckets])
next
  case False
  then show ?thesis by (simp add: observe_def bumpBuckets_other)
qed

lemma hist_of_new_cell:
  "hist_of (Some (new_cell HISTOGRAM v current old)) = observe v (hist_of old)"
  by (simp add: new_cell_def hist_of_def)

lemma observeHistogram_metrics:
  assumes "map_of (metrics mc) name = Some m" "m_type m = HISTOGRAM"
  shows "metrics (observeHistogram mc name v labels) =
           AList.update name (written m v labels) (metrics mc)"
    and "metrics (setMetric mc name v labels) =
           AList.update name (written m v labels) (metrics mc)"
  using assms by (simp_all add: observeHistogram_def setMetric_metrics)

lemma hist_cell_observe:
  assumes "map_of (metrics mc) name = Some m" "m_type m = HISTOGRAM"
  shows "hist_cell (observeHistogram mc name v labels) name l' =
     (if same_cell (labelNames m) labels l' then observe v (hist_cell mc name l')
      else hist_cell mc name l')"
  using assms
  by (auto simp: hist_cell_def observeHistogram_metrics update_conv' written_def same_cell_def
      hist_of_new_cell)

lemma observeHistogram_keeps:
  assumes "map_of (metrics mc) name = Some m" "m_type m = HISTOGRAM"
  shows "map_of (metrics (observeHistogram mc name v labels)) name = Some (written m v labels)"
  using assms by (simp add: observeHistogram_metrics update_conv')

lemma written_name: "m_name (written m v labels) = m_name m"
  by (simp add: written_def)

lemma observeAll_Cons:
  "observeAll mc name ((v, l) # obs) = observeAll (observeHistogram mc name v l) name obs"
  by (simp add: observeAll_def)


lemma has_cell_observe:
  assumes "map_of (metrics mc) name = Some m" "m_type m = HISTOGRAM"
  shows "has_cell (observeHistogram mc name v labels) name l' =
           (has_cell mc name l' \<or> same_cell (labelNames m) labels l')"
  using assms
  by (auto simp: has_cell_def observeHistogram_metrics update_conv' written_def same_cell_def)

lemma observeAll_cell:
  assumes "map_of (metrics mc) name = Some m" "m_type m = HISTOGRAM"
  shows "h_count (hist_cell (observeAll mc name obs) name l') =
           h_count (hist_cell mc name l')
           + length (filter (\<lambda>(v, l). same_cell (labelNames m) l l') obs)
       \<and> h_sum (hist_cell (observeAll mc name obs) name l') =
           foldl js_add (h_sum (hist_cell mc name l'))
             (map fst (filter (\<lambda>(v, l). same_cell (labelNames m) l l') obs))
       \<and> has_cell (observeAll mc name obs) name l' =
           (has_cell mc name l' \<or> filter (\<lambda>(v, l). same_cell (labelNames m) l l') obs \<noteq> [])
       \<and> (\<exists>m'. map_of (metrics (observeAll mc name obs)) name = Some m'
              \<and> m_type m' = HISTOGRAM \<and> labelNames m' = labelNames m \<and> m_name m' = m_name m)"
  using assms
proof (induction obs arbitrary: mc m)
  case Nil
  then show ?case by (simp add: observeAll_def)
next
  case (Cons o1 obs)
  obtain v l where o1: "o1 = (v, l)" by (cases o1)
  let ?mc = "observeHistogram mc name v l"
  have k: "map_of (metrics ?mc) name = Some (written m v l)"
    using Cons.prems by (rule observeHistogram_keeps)
  have t: "m_type (written m v l) = HISTOGRAM"
    using Cons.prems by (simp add: written_type)
  note ih = Cons.IH [OF k t]
  show ?case
    using ih hist_cell_observe [OF Cons.prems, of v l l'] has_cell_observe [OF Cons.prems, of v l l']
    by (simp add: o1 observeAll_Cons written_type written_name observe_fields)
qed

lemma export_histogram_inf:
  "Sample (inf_bucket name ls) (Number (real (h_count h))) \<in> set (export_histogram name ls h)"
  "last (export_histogram name ls h) = Sample (inf_bucket name ls) (Number (real (h_count h)))"
  by (simp_all add: export_histogram_def inf_bucket_def Let_def)

lemma export_metric_subset:
  "map_of (metrics mc) name = Some m \<Longrightarrow> set (export_metric m) \<subseteq> set (exportPrometheusMetrics mc)"
  by (force simp: exportPrometheusMetrics_def dest: map_of_SomeD)

lemma export_cell_inf:
  assumes m: "map_of (metrics mc) name = Some m" "m_type m = HISTOGRAM"
    and c: "has_cell mc name labels"
  shows "Sample (inf_bucket (m_name m)
                  (if labelNames m = [] then None
                   else Some (labelString_of (getLabelKey labels (labelNames m)))))
           (Number (real (h_count (hist_cell mc name labels))))
         \<in> set (exportPrometheusMetrics mc)"
proof -
  have "Sample (inf_bucket (m_name m)
                  (if labelNames m = [] then None
                   else Some (labelString_of (getLabelKey labels (labelNames m)))))
           (Number (real (h_count (hist_cell mc name labels)))) \<in> set (export_metric m)"
  proof (cases "labelNames m = []")
    case True
    with m show ?thesis
      by (simp add: export_metric_def hist_cell_def export_histogram_inf)
  next
    case False
    with c m obtain cl where cl: "map_of (labelValues m) (getLabelKey labels (labelNames m)) = Some cl"
      by (auto simp: has_cell_def)
    then have "(getLabelKey labels (labelNames m), cl) \<in> set (labelValues m)"
      by (rule map_of_SomeD)
    moreover have "hist_cell mc name labels = hist_of (Some cl)"
      using m False cl by (simp add: hist_cell_def)
    ultimately show ?thesis
      using False m export_histogram_inf(1)
      by (force simp: export_metric_def)
  qed
  with export_metric_subset [OF m(1)] show ?thesis by blast
qed

lemma registered_histogram:
  assumes "map_of (metrics mc) name = None"
  shows "map_of (metrics (registerMetric mc now name HISTOGRAM descr names)) name =
           Some (fresh_metric mc now name HISTOGRAM descr names)"
    and "hist_cell (registerMetric mc now name HISTOGRAM descr names) name labels = empty_histogram"
    and "has_cell (registerMetric mc now name HISTOGRAM descr names) name labels = (names = [])"
  using assms
  by (simp_all add: registerMetric_def fresh_metric_def update_conv' hist_cell_def hist_of_def
      has_cell_def)

lemma observations_counted:
  fixes mc :: MetricsCollector and now :: nat and name descr :: string
    and names :: "string list" and obs :: "(jsvalue \<times> labels) list" and labels :: labels
  assumes "map_of (metrics mc) name = None"
  defines "mc' \<equiv> observeAll (registerMetric mc now name HISTOGRAM descr names) name obs"
    and "mine \<equiv> filter (\<lambda>(v, l). same_cell names l labels) obs"
  shows "h_count (hist_cell mc' name labels) = length mine"
    and "h_sum (hist_cell mc' name labels) = foldl js_add (Number 0) (map fst mine)"
    and "names = [] \<or> mine \<noteq> [] \<Longrightarrow>
         Sample (inf_bucket (prefix mc @ name)
                   (if names = [] then None else Some (labelString_of (getLabelKey labels names))))
           (Number (real (length mine)))
         \<in> set (exportPrometheusMetrics mc')"
proof -
  let ?mc0 = "registerMetric mc now name HISTOGRAM descr names"
  let ?m0 = "fresh_metric mc now name HISTOGRAM descr names"
  have m0: "map_of (metrics ?mc0) name = Some ?m0" "m_type ?m0 = HISTOGRAM"
    "labelNames ?m0 = names" "m_name ?m0 = prefix mc @ name"
    using assms(1) by (simp_all add: registered_histogram fresh_metric_def)
  note all = observeAll_cell [OF m0(1) m0(2), of obs labels]
  from all show c: "h_count (hist_cell mc' name labels) = length mine"
    using assms(1) by (simp add: mc'_def mine_def registered_histogram m0 empty_histogram_def)
  from all show "h_sum (hist_cell mc' name labels) = foldl js_add (Number 0) (map fst mine)"
    using assms(1) by (simp add: mc'_def mine_def registered_histogram m0 empty_histogram_def)
  assume ex: "names = [] \<or> mine \<noteq> []"
  from all obtain m' where m': "map_of (metrics mc') name = Some m'" "m_type m' = HISTOGRAM"
    "labelNames m' = names" "m_name m' = prefix mc @ name"
    by (auto simp: mc'_def m0)
  from all ex have hc: "has_cell mc' name labels"
    using assms(1) by (simp add: mc'_def mine_def registered_histogram m0)
  from export_cell_inf [OF m'(1) m'(2) hc]
  show "Sample (inf_bucket (prefix mc @ name)
                   (if names = [] then None else Some (labelString_of (getLabelKey labels names))))
           (Number (real (length mine)))
         \<in> set (exportPrometheusMetrics mc')"
    by (simp add: m' c cong: if_cong)
qed

lemma foldl_js_add_numbers:
  "foldl js_add (Number a) (map Number xs) = Number (a + sum_list xs)"
  by (induction xs arbitrary: a) (simp_all add: algebra_simps)

subsection \<open>Histogram coherence\<close>

text \<open>
  Claim C8. One observation written into a histogram cell adds 1 to \<open>count\<close>, adds the
  value to \<open>sum\<close>, and adds 1 to the bucket of every boundary of the ladder that is at
  least the value; the other buckets stay. \<open>observeHistogram\<close> (and \<open>setMetric\<close>) on a
  histogram, labelled or not, writes exactly that into the cell the labels address and
  leaves the other cells. So after any sequence of observations on a newly registered
  histogram, each cell's \<open>count\<close> is the number of observations made on it, its \<open>sum\<close>
  is their sum (added up from 0 in the order made, which for numbers is the sum of the
  numbers), and the export holds the cell's \<open>+Inf\<close> bucket sample with that number
  (for every cell that exists: always without label names, else once observed).
\<close>

theorem histogram_coherence:
  "(\<forall>v h b.
      h_count (observe v h) = h_count h + 1
      \<and> h_sum (observe v h) = js_add (h_sum h) v
      \<and> h_buckets (observe v h) b =
          (if b \<in> set buckets \<and> js_le v (Number (real b)) then Some (bucket_count h b + 1)
           else h_buckets h b))
   \<and> (\<forall>mc name m v labels l'.
        map_of (metrics mc) name = Some m \<and> m_type m = HISTOGRAM \<longrightarrow>
          hist_cell (observeHistogram mc name v labels) name l' =
            (if same_cell (labelNames m) labels l' then observe v (hist_cell mc name l')
             else hist_cell mc name l')
          \<and> setMetric mc name v labels = observeHistogram mc name v labels)
   \<and> (\<forall>mc now name descr names obs labels.
        map_of (metrics mc) name = None \<longrightarrow>
          h_count (hist_cell
                     (observeAll (registerMetric mc now name HISTOGRAM descr names) name obs)
                     name labels)
            = length (filter (\<lambda>(v, l). same_cell names l labels) obs)
          \<and> h_sum (hist_cell
                     (observeAll (registerMetric mc now name HISTOGRAM descr names) name obs)
                     name labels)
            = foldl js_add (Number 0)
                (map fst (filter (\<lambda>(v, l). same_cell names l labels) obs))
          \<and> (names = [] \<or> filter (\<lambda>(v, l). same_cell names l labels) obs \<noteq> [] \<longrightarrow>
               Sample (inf_bucket (prefix mc @ name)
                         (if names = [] then None
                          else Some (labelString_of (getLabelKey labels names))))
                 (Number (real (length (filter (\<lambda>(v, l). same_cell names l labels) obs))))
               \<in> set (exportPrometheusMetrics
                        (observeAll (registerMetric mc now name HISTOGRAM descr names)
                           name obs))))
   \<and> (\<forall>a b xs. js_add (Number a) (Number b) = Number (a + b)
        \<and> foldl js_add (Number 0) (map Number xs) = Number (sum_list xs)
        \<and> js_le (Number a) (Number b) = (a \<le> b))"
proof (intro conjI allI impI)
  fix v h b
  show "h_count (observe v h) = h_count h + 1" "h_sum (observe v h) = js_add (h_sum h) v"
    by (simp_all add: observe_fields)
  show "h_buckets (observe v h) b =
          (if b \<in> set buckets \<and> js_le v (Number (real b)) then Some (bucket_count h b + 1)
           else h_buckets h b)"
    by (rule observe_buckets)
next
  fix mc :: MetricsCollector and name :: string and m :: metric and v :: jsvalue
    and labels l' :: labels
  assume a: "map_of (metrics mc) name = Some m \<and> m_type m = HISTOGRAM"
  then show "hist_cell (observeHistogram mc name v labels) name l' =
            (if same_cell (labelNames m) labels l' then observe v (hist_cell mc name l')
             else hist_cell mc name l')"
    using hist_cell_observe [of mc name m v labels l'] by simp
  from a show "setMetric mc name v labels = observeHistogram mc name v labels"
    by (simp add: observeHistogram_def)
next
  fix mc :: MetricsCollector and now :: nat and name descr :: string and names :: "string list"
    and obs :: "(jsvalue \<times> labels) list" and labels :: labels
  assume a: "map_of (metrics mc) name = None"
  show "h_count (hist_cell
                     (observeAll (registerMetric mc now name HISTOGRAM descr names) name obs)
                     name labels)
            = length (filter (\<lambda>(v, l). same_cell names l labels) obs)"
    using a by (rule observations_counted(1))
  show "h_sum (hist_cell
                     (observeAll (registerMetric mc now name HISTOGRAM descr names) name obs)
                     name labels)
            = foldl js_add (Number 0)
                (map fst (filter (\<lambda>(v, l). same_cell names l labels) obs))"
    using a by (rule observations_counted(2))
  assume "names = [] \<or> filter (\<lambda>(v, l). same_cell names l labels) obs \<noteq> []"
  with a show "Sample (inf_bucket (prefix mc @ name)
                         (if names = [] then None
                          else Some (labelString_of (getLabelKey labels names))))
                 (Number (real (length (filter (\<lambda>(v, l). same_cell names l labels) obs))))
               \<in> set (exportPrometheusMetrics
                        (observeAll (registerMetric mc now name HISTOGRAM descr names)
                           name obs))"
    by (rule observations_counted(3))
next
  fix a b :: real and xs :: "real list"
  show "js_add (Number a) (Number b) = Number (a + b)" by simp
  show "foldl js_add (Number 0) (map Number xs) = Number (sum_list xs)"
    using foldl_js_add_numbers [of 0 xs] by simp
  show "js_le (Number a) (Number b) = (a \<le> b)" by simp
qed

lemma latency_filter:
  "filter (\<lambda>(v, l). same_cell [''route''] l [(''route'', ''a'')]) latency_obs =
     [(Number 3, [(''route'', ''a'')]), (Number 7, [(''route'', ''a'')])]"
  by (simp add: latency_obs_def same_cell_def getLabelKey_def)

theorem histogram_coherence_witness:
  "h_count (hist_cell latency_scenario ''latency'' [(''route'', ''a'')]) = 2
   \<and> h_sum (hist_cell latency_scenario ''latency'' [(''route'', ''a'')]) = Number 10
   \<and> Sample (inf_bucket ''app_latency'' (Some (labelString_of ''route:a''))) (Number 2)
       \<in> set (exportPrometheusMetrics latency_scenario)"
proof -
  have none: "map_of (metrics (new_MetricsCollector None)) ''latency'' = None"
    by (simp add: new_MetricsCollector_def)
  note inst = histogram_coherence [THEN conjunct2, THEN conjunct2, THEN conjunct1, rule_format,
      where mc = "new_MetricsCollector None" and now = 0 and name = "''latency''"
        and descr = "''Latency in ms''" and names = "[''route'']" and obs = latency_obs
        and labels = "[(''route'', ''a'')]", OF none]
  have key: "getLabelKey [(''route'', ''a'')] [''route''] = ''route:a''"
    by (simp add: getLabelKey_def)
  have p: "prefix (new_MetricsCollector None) = ''app_''"
    by (simp add: new_MetricsCollector_def)
  from inst show ?thesis
    unfolding latency_filter latency_scenario_def [symmetric]
    by (simp add: key p)
qed


subsection \<open>Stampede-protected cache: one caller\<close>

lemma getWithProtection_hit:
  assumes "generateKey entity operation identifier = Inr cacheKey" "\<not> down s"
    and "live s cacheKey = Some v" "truthy v"
  shows "getWithProtection s entity operation identifier fb expireTime = (Inr v, s)"
  using assms by (subst getWithProtection.simps) (simp add: cache_get_def)

lemma getWithProtection_wait:
  assumes "generateKey entity operation identifier = Inr cacheKey" "\<not> down s"
    and "\<forall>v. live s cacheKey = Some v \<longrightarrow> \<not> truthy v"
    and "live s (getLockKey cacheKey) \<noteq> None"
  shows "getWithProtection s entity operation identifier fb expireTime =
           getWithProtection (sleep 100 s) entity operation identifier fb expireTime"
  using assms
  by (subst getWithProtection.simps)
     (auto simp: cache_get_def acquire_def split: option.splits)

lemma live_other_key:
  "k \<noteq> k' \<Longrightarrow> live (s\<lparr>store := (store s)(k' \<mapsto> e)\<rparr>) k = live s k"
  by (simp add: live_def split: option.splits)

lemma lock_key_differs: "getLockKey key \<noteq> key"
  by (simp add: getLockKey_def)

lemma getWithProtection_compute:
  assumes "generateKey entity operation identifier = Inr cacheKey" "\<not> down s"
    and "\<forall>v. live s cacheKey = Some v \<longrightarrow> \<not> truthy v"
    and "live s (getLockKey cacheKey) = None"
  shows "getWithProtection s entity operation identifier (Returns v) expireTime =
           (Inr v,
            s\<lparr>store := (store s)(cacheKey \<mapsto> (v, clock s + expireTime * 1000),
                                  getLockKey cacheKey := None),
              fallback_calls := fallback_calls s + 1\<rparr>)"
proof -
  let ?s1 = "s\<lparr>store := (store s)(getLockKey cacheKey \<mapsto> (JNum 1, clock s + 10 * 1000))\<rparr>"
  have a: "acquire s cacheKey 10 = (True, ?s1)"
    using assms by (simp add: acquire_def)
  have l: "live ?s1 cacheKey = live s cacheKey"
    using lock_key_differs [of cacheKey] by (intro live_other_key) auto
  have g1: "\<exists>d. cache_get s cacheKey = Inr d \<and> \<not> truthy d"
    using assms by (auto simp: cache_get_def split: option.splits)
  have g2: "\<exists>d. cache_get ?s1 cacheKey = Inr d \<and> \<not> truthy d"
    using assms l by (auto simp: cache_get_def split: option.splits)
  have upd: "(store s)(getLockKey cacheKey \<mapsto> (JNum 1, clock s + 10 * 1000),
                cacheKey \<mapsto> (v, clock s + expireTime * 1000), getLockKey cacheKey := None)
           = (store s)(cacheKey \<mapsto> (v, clock s + expireTime * 1000),
                getLockKey cacheKey := None)"
    using lock_key_differs [of cacheKey] by (auto simp: fun_eq_iff)
  from g1 g2 show ?thesis
    using assms(1,2) upd
    by (subst getWithProtection.simps)
       (auto simp: a Let_def cache_set_def release_def)
qed

lemma getWithProtection_fallback_throws:
  assumes "generateKey entity operation identifier = Inr cacheKey" "\<not> down s"
    and "\<forall>v. live s cacheKey = Some v \<longrightarrow> \<not> truthy v"
    and "live s (getLockKey cacheKey) = None"
  shows "getWithProtection s entity operation identifier (Throws e) expireTime =
           (Inl (FallbackError e),
            s\<lparr>store := (store s)(getLockKey cacheKey := None),
              fallback_calls := fallback_calls s + 1\<rparr>)"
proof -
  let ?s1 = "s\<lparr>store := (store s)(getLockKey cacheKey \<mapsto> (JNum 1, clock s + 10 * 1000))\<rparr>"
  have a: "acquire s cacheKey 10 = (True, ?s1)"
    using assms by (simp add: acquire_def)
  have l: "live ?s1 cacheKey = live s cacheKey"
    using lock_key_differs [of cacheKey] by (intro live_other_key) auto
  have g1: "\<exists>d. cache_get s cacheKey = Inr d \<and> \<not> truthy d"
    using assms by (auto simp: cache_get_def split: option.splits)
  have g2: "\<exists>d. cache_get ?s1 cacheKey = Inr d \<and> \<not> truthy d"
    using assms l by (auto simp: cache_get_def split: option.splits)
  from g1 g2 show ?thesis
    using assms(1,2)
    by (subst getWithProtection.simps)
       (auto simp: a Let_def release_def)
qed

text \<open>
  Claim C5 at the input where it fails: the key is present and holds the cached value
  0. \<open>if (data)\<close> takes the 0 for a miss, so the lock is taken, the double check takes
  the 0 for a miss again, the fallback is called and its value 7 overwrites the cached
  0 and is returned.
\<close>

theorem getWithProtection_cached_zero:
  "live cached_zero ''rdp:user:visits:123:v1'' = Some (JNum 0)
   \<and> generateKey ''user'' ''visits'' ''123'' = Inr ''rdp:user:visits:123:v1''
   \<and> getWithProtection cached_zero ''user'' ''visits'' ''123'' (Returns (JNum 7)) 3600 =
       (Inr (JNum 7),
        cached_zero\<lparr>store := (store cached_zero)
                       (''rdp:user:visits:123:v1'' \<mapsto> (JNum 7, 3600000),
                        getLockKey ''rdp:user:visits:123:v1'' := None),
                    fallback_calls := 1\<rparr>)"
proof -
  have k: "generateKey ''user'' ''visits'' ''123'' = Inr ''rdp:user:visits:123:v1''"
    by (simp add: generateKey_def)
  have l: "live cached_zero ''rdp:user:visits:123:v1'' = Some (JNum 0)"
    by (simp add: cached_zero_def live_def)
  have f: "live cached_zero (getLockKey ''rdp:user:visits:123:v1'') = None"
    by (simp add: cached_zero_def live_def getLockKey_def)
  have d: "\<not> down cached_zero" "clock cached_zero = 0" "fallback_calls cached_zero = 0"
    by (simp_all add: cached_zero_def)
  have "getWithProtection cached_zero ''user'' ''visits'' ''123'' (Returns (JNum 7)) 3600 =
       (Inr (JNum 7),
        cached_zero\<lparr>store := (store cached_zero)
                       (''rdp:user:visits:123:v1'' \<mapsto>
                          (JNum 7, clock cached_zero + 3600 * 1000),
                        getLockKey ''rdp:user:visits:123:v1'' := None),
                    fallback_calls := fallback_calls cached_zero + 1\<rparr>)"
    by (rule getWithProtection_compute [OF k d(1)]) (simp_all add: l f)
  with k l d show ?thesis by simp
qed

text \<open>
  Claim C6 at an input where it fails: the key is absent and two callers ask for it
  with a fallback that resolves with 0. The caller that gets the lock finds the key
  absent, calls the fallback, writes the 0 and releases the lock. The other caller found
  the key absent and the lock taken, sleeps 100 ms and starts over; by then the key is
  present and holds 0, which \<open>if (data)\<close> takes for a miss at the first check and at
  the double check under the lock, so the fallback is called a second time.
\<close>

theorem getWithProtection_waiter_recomputes:
  "live empty_cache ''rdp:user:profile:123:v1'' = None
   \<and> getWithProtection empty_cache ''user'' ''profile'' ''123'' (Returns (JNum 0)) 3600 =
       (Inr (JNum 0), holder_done)
   \<and> fallback_calls holder_done = 1
   \<and> getWithProtection lock_held ''user'' ''profile'' ''123'' (Returns (JNum 0)) 3600 =
       getWithProtection (sleep 100 lock_held) ''user'' ''profile'' ''123'' (Returns (JNum 0)) 3600
   \<and> live (sleep 100 holder_done) ''rdp:user:profile:123:v1'' = Some (JNum 0)
   \<and> live (sleep 100 holder_done) (getLockKey ''rdp:user:profile:123:v1'') = None
   \<and> fst (getWithProtection (sleep 100 holder_done) ''user'' ''profile'' ''123''
             (Returns (JNum 0)) 3600) = Inr (JNum 0)
   \<and> fallback_calls (snd (getWithProtection (sleep 100 holder_done) ''user'' ''profile'' ''123''
                             (Returns (JNum 0)) 3600)) = 2"
proof -
  let ?key = "''rdp:user:profile:123:v1''"
  have k: "generateKey ''user'' ''profile'' ''123'' = Inr ?key"
    by (simp add: generateKey_def)
  have e: "\<not> down empty_cache" "live empty_cache ?key = None"
    "live empty_cache (getLockKey ?key) = None"
    by (simp_all add: empty_cache_def live_def)
  have first: "getWithProtection empty_cache ''user'' ''profile'' ''123'' (Returns (JNum 0)) 3600 =
       (Inr (JNum 0),
        empty_cache\<lparr>store := (store empty_cache)
                       (?key \<mapsto> (JNum 0, clock empty_cache + 3600 * 1000),
                        getLockKey ?key := None),
                    fallback_calls := fallback_calls empty_cache + 1\<rparr>)"
    by (rule getWithProtection_compute [OF k e(1)]) (simp_all add: e)
  then have h: "holder_done =
        empty_cache\<lparr>store := (store empty_cache)
                       (?key \<mapsto> (JNum 0, clock empty_cache + 3600 * 1000),
                        getLockKey ?key := None),
                    fallback_calls := fallback_calls empty_cache + 1\<rparr>"
    by (simp add: holder_done_def)
  have w: "\<not> down lock_held" "live lock_held ?key = None"
    "live lock_held (getLockKey ?key) \<noteq> None"
    by (simp_all add: lock_held_def live_def getLockKey_def)
  have wait: "getWithProtection lock_held ''user'' ''profile'' ''123'' (Returns (JNum 0)) 3600 =
       getWithProtection (sleep 100 lock_held) ''user'' ''profile'' ''123'' (Returns (JNum 0)) 3600"
    by (rule getWithProtection_wait [OF k w(1)]) (simp_all add: w)
  let ?s = "sleep 100 holder_done"
  have s: "\<not> down ?s" "live ?s ?key = Some (JNum 0)" "live ?s (getLockKey ?key) = None"
    "fallback_calls ?s = 1"
    by (simp_all add: h sleep_def empty_cache_def live_def getLockKey_def)
  have again: "getWithProtection ?s ''user'' ''profile'' ''123'' (Returns (JNum 0)) 3600 =
       (Inr (JNum 0),
        ?s\<lparr>store := (store ?s)(?key \<mapsto> (JNum 0, clock ?s + 3600 * 1000),
                                  getLockKey ?key := None),
           fallback_calls := fallback_calls ?s + 1\<rparr>)"
    by (rule getWithProtection_compute [OF k s(1)]) (simp_all add: s)
  have c1: "fallback_calls holder_done = 1"
    by (simp add: h empty_cache_def)
  from first h have f2: "getWithProtection empty_cache ''user'' ''profile'' ''123''
      (Returns (JNum 0)) 3600 = (Inr (JNum 0), holder_done)"
    by simp
  show ?thesis
    unfolding again using e(2) f2 c1 wait s by simp
qed


end
